theory Spec2Isabelle
  imports Complex_Main "HOL-Library.Sublist"
begin

section \<open>The CVD synthesis prediction platform\<close>

text \<open>
  The repository holds two versions of the React component \<open>CVDPlatform\<close>, one after
  the other in the same source file. The first (lines 1 to 697) posts the form to the
  prediction API and reports a failure to the user; the second (lines 699 to 1284) has no
  backend and simulates a prediction when the request fails. Both keep the history of
  predictions in the cookie \<open>cvd_history\<close>. They are told apart below by a value of type
  \<open>component\<close>; everything that is the same text in both is modelled once.

  The component's React state is a record, each handler is a function from state to
  state, and what a handler does to the outside world (the cookie, the notifications, the
  error console) is part of that state. What the browser supplies (the clock, the random
  number generator, the network) is an argument of the handler.
\<close>

datatype component = Api | Demo

subsection \<open>JavaScript values\<close>

text \<open>
  A JavaScript number is a finite value, \<open>NaN\<close> or an infinity. Finite values are
  modelled by real numbers: rounding of doubles is not modelled.
\<close>

datatype jsnumber = Finite real | NaN | PosInfinity | NegInfinity

datatype jsval =
    JUndefined
  | JNull
  | JBool bool
  | JNumber jsnumber
  | JString string
  | JArray "jsval list"
  | JObject "(string \<times> jsval) list"

text \<open>\<open>value <= 0\<close> and \<open>isNaN(value)\<close> on a number.\<close>

fun le_zero :: "jsnumber \<Rightarrow> bool" where
  "le_zero (Finite r) = (r \<le> 0)"
| "le_zero NaN = False"
| "le_zero PosInfinity = False"
| "le_zero NegInfinity = True"

fun isNaN :: "jsnumber \<Rightarrow> bool" where
  "isNaN NaN = True"
| "isNaN _ = False"

fun isFinite :: "jsnumber \<Rightarrow> bool" where
  "isFinite (Finite r) = True"
| "isFinite _ = False"

text \<open>\<open>!x\<close>: the values JavaScript counts as false.\<close>

fun falsy :: "jsval \<Rightarrow> bool" where
  "falsy JUndefined = True"
| "falsy JNull = True"
| "falsy (JBool b) = (\<not> b)"
| "falsy (JNumber n) = (n = Finite 0 \<or> n = NaN)"
| "falsy (JString s) = (s = [])"
| "falsy (JArray xs) = False"
| "falsy (JObject kvs) = False"

subsection \<open>Numbers and values as text\<close>

definition digit_char :: "nat \<Rightarrow> char" where
  "digit_char d = (if d < 16 then ''0123456789abcdef'' ! d else CHR ''?'')"

text \<open>The decimal digits of a natural number, as \<open>Date.now().toString()\<close> writes them.\<close>

fun nat_digits :: "nat \<Rightarrow> string" where
  "nat_digits n = (if n < 10 then [digit_char n] else nat_digits (n div 10) @ [digit_char (n mod 10)])"

declare nat_digits.simps [simp del]

text \<open>
  The digits after the decimal point, at most as many as the first argument says.
\<close>

fun frac_digits :: "nat \<Rightarrow> real \<Rightarrow> string" where
  "frac_digits 0 f = []"
| "frac_digits (Suc k) f =
     (if f = 0 then []
      else digit_char (nat \<lfloor>f * 10\<rfloor>) # frac_digits k (f * 10 - of_int \<lfloor>f * 10\<rfloor>))"

text \<open>
  \<open>Number.prototype.toString\<close> in positional notation. JavaScript changes to exponent
  notation for magnitudes from \<open>1e21\<close> and below \<open>1e-6\<close>, and prints the shortest digits that
  read back as the same double; neither is modelled, and no statement below depends on
  the text of such a number.
\<close>

fun Number_toString :: "jsnumber \<Rightarrow> string" where
  "Number_toString NaN = ''NaN''"
| "Number_toString PosInfinity = ''Infinity''"
| "Number_toString NegInfinity = ''-Infinity''"
| "Number_toString (Finite r) =
     (if r < 0 then ''-'' else []) @ nat_digits (nat \<lfloor>\<bar>r\<bar>\<rfloor>) @
     (if \<bar>r\<bar> = of_int \<lfloor>\<bar>r\<bar>\<rfloor> then []
      else ''.'' @ frac_digits 20 (\<bar>r\<bar> - of_int \<lfloor>\<bar>r\<bar>\<rfloor>))"

fun join :: "string \<Rightarrow> string list \<Rightarrow> string" where
  "join sep [] = []"
| "join sep [x] = x"
| "join sep (x # y # ys) = x @ sep @ join sep (y # ys)"

text \<open>
  The string a template literal \<open>`${v}`\<close> puts in place of a value. An array is its
  elements joined by commas, \<open>null\<close> and \<open>undefined\<close> elements left empty.
\<close>

fun ToString :: "jsval \<Rightarrow> string"
  and ToString_element :: "jsval \<Rightarrow> string" where
  "ToString JUndefined = ''undefined''"
| "ToString JNull = ''null''"
| "ToString (JBool b) = (if b then ''true'' else ''false'')"
| "ToString (JNumber n) = Number_toString n"
| "ToString (JString s) = s"
| "ToString (JArray xs) = join '','' (map ToString_element xs)"
| "ToString (JObject kvs) = ''[object Object]''"
| "ToString_element v = (if v = JUndefined \<or> v = JNull then [] else ToString v)"

subsection \<open>\<open>JSON.stringify\<close>\<close>

definition hex2 :: "nat \<Rightarrow> string" where
  "hex2 n = [digit_char (n div 16), digit_char (n mod 16)]"

text \<open>
  A character inside a JSON string: the quote and the backslash are escaped, the control
  characters below \<open>0x20\<close> are written as their short escape or as \<open>\u00XX\<close>, every other
  character is copied.
\<close>

definition JSON_escape :: "char \<Rightarrow> string" where
  "JSON_escape c =
     (let n = (of_char c :: nat) in
      if n = 0x22 then [CHR 0x5C, CHR 0x22]
      else if n = 0x5C then [CHR 0x5C, CHR 0x5C]
      else if n = 8 then [CHR 0x5C, CHR ''b'']
      else if n = 9 then [CHR 0x5C, CHR ''t'']
      else if n = 10 then [CHR 0x5C, CHR ''n'']
      else if n = 12 then [CHR 0x5C, CHR ''f'']
      else if n = 13 then [CHR 0x5C, CHR ''r'']
      else if n < 0x20 then [CHR 0x5C, CHR ''u'', CHR ''0'', CHR ''0''] @ hex2 n
      else [c])"

definition JSON_quote :: "string \<Rightarrow> string" where
  "JSON_quote s = [CHR 0x22] @ concat (map JSON_escape s) @ [CHR 0x22]"

text \<open>
  The text of a value. \<open>JSON_text\<close> is the text of a value that stands inside an array
  (where \<open>undefined\<close> is written \<open>null\<close>); a property whose value is \<open>undefined\<close> is left
  out of its object; a number that is not finite is written \<open>null\<close>.
\<close>

fun JSON_text :: "jsval \<Rightarrow> string"
  and JSON_elements :: "jsval list \<Rightarrow> string list"
  and JSON_members :: "(string \<times> jsval) list \<Rightarrow> string list" where
  "JSON_text JUndefined = ''null''"
| "JSON_text JNull = ''null''"
| "JSON_text (JBool b) = (if b then ''true'' else ''false'')"
| "JSON_text (JNumber n) = (if isFinite n then Number_toString n else ''null'')"
| "JSON_text (JString s) = JSON_quote s"
| "JSON_text (JArray xs) = ''['' @ join '','' (JSON_elements xs) @ '']''"
| "JSON_text (JObject kvs) = ''{'' @ join '','' (JSON_members kvs) @ ''}''"
| "JSON_elements [] = []"
| "JSON_elements (x # xs) = JSON_text x # JSON_elements xs"
| "JSON_members [] = []"
| "JSON_members ((k, v) # kvs) =
     (if v = JUndefined then JSON_members kvs
      else (JSON_quote k @ '':'' @ JSON_text v) # JSON_members kvs)"

text \<open>
  \<open>JSON.stringify(v)\<close> is \<open>undefined\<close> for the value \<open>undefined\<close>, and the text of the
  value otherwise. Placed in a template literal, \<open>undefined\<close> reads \<open>undefined\<close>.
\<close>

definition JSON_stringify :: "jsval \<Rightarrow> string option" where
  "JSON_stringify v = (if v = JUndefined then None else Some (JSON_text v))"

definition template :: "string option \<Rightarrow> string" where
  "template t = (case t of None \<Rightarrow> ''undefined'' | Some s \<Rightarrow> s)"

subsection \<open>\<open>JSON.parse\<close>\<close>

text \<open>
  A recursive-descent reader of JSON text. It fails with \<open>SyntaxError\<close> where
  \<open>JSON.parse\<close> throws. The recursion is bounded by a counter that \<open>JSON_parse\<close> sets
  from the length of the text; \<open>OutOfFuel\<close> says that the counter ran out. Strings are
  lists of 8-bit characters, so an escape \<open>\uXXXX\<close> above \<open>\u00ff\<close> has no
  character in the model: the reader answers \<open>OutsideModel\<close> for it.
\<close>

datatype parse_error = SyntaxError | OutOfFuel | OutsideModel

definition is_ws :: "char \<Rightarrow> bool" where
  "is_ws c = (c = CHR 0x20 \<or> c = CHR 0x09 \<or> c = CHR 0x0A \<or> c = CHR 0x0D)"

definition skip_ws :: "string \<Rightarrow> string" where
  "skip_ws s = dropWhile is_ws s"

definition is_digit :: "char \<Rightarrow> bool" where
  "is_digit c = (48 \<le> (of_char c :: nat) \<and> (of_char c :: nat) \<le> 57)"

definition digit_val :: "char \<Rightarrow> nat" where
  "digit_val c = of_char c - 48"

fun digits_val :: "nat \<Rightarrow> string \<Rightarrow> nat" where
  "digits_val acc [] = acc"
| "digits_val acc (c # cs) = digits_val (acc * 10 + digit_val c) cs"

definition hex_val :: "char \<Rightarrow> nat option" where
  "hex_val c =
     (let n = (of_char c :: nat) in
      if 48 \<le> n \<and> n \<le> 57 then Some (n - 48)
      else if 97 \<le> n \<and> n \<le> 102 then Some (n - 87)
      else if 65 \<le> n \<and> n \<le> 70 then Some (n - 55)
      else None)"

fun starts_with :: "string \<Rightarrow> string \<Rightarrow> bool" where
  "starts_with [] s = True"
| "starts_with (p # ps) [] = False"
| "starts_with (p # ps) (c # cs) = (p = c \<and> starts_with ps cs)"

text \<open>
  The character that a short escape stands for, and the character that the four
  hexadecimal digits of \<open>\uXXXX\<close> stand for.
\<close>

definition simple_escape :: "char \<Rightarrow> char option" where
  "simple_escape e =
     (if e = CHR 0x22 then Some (CHR 0x22)
      else if e = CHR 0x5C then Some (CHR 0x5C)
      else if e = CHR ''/'' then Some (CHR ''/'')
      else if e = CHR ''b'' then Some (CHR 0x08)
      else if e = CHR ''f'' then Some (CHR 0x0C)
      else if e = CHR ''n'' then Some (CHR 0x0A)
      else if e = CHR ''r'' then Some (CHR 0x0D)
      else if e = CHR ''t'' then Some (CHR 0x09)
      else None)"

definition unicode_escape :: "string \<Rightarrow> parse_error + char" where
  "unicode_escape hs =
     (case map hex_val hs of
        [Some a, Some b, Some c, Some d] \<Rightarrow>
          if a = 0 \<and> b = 0 then Inr (char_of (c * 16 + d)) else Inl OutsideModel
      | _ \<Rightarrow> Inl SyntaxError)"

text \<open>
  The characters of a string after its opening quote, up to the closing quote: the
  decoded string and the text that follows it.
\<close>

fun parse_string :: "string \<Rightarrow> string \<Rightarrow> parse_error + (string \<times> string)"
  and parse_escape :: "string \<Rightarrow> string \<Rightarrow> parse_error + (string \<times> string)" where
  "parse_string acc [] = Inl SyntaxError"
| "parse_string acc (c # cs) =
     (if c = CHR 0x22 then Inr (rev acc, cs)
      else if c = CHR 0x5C then parse_escape acc cs
      else if (of_char c :: nat) < 0x20 then Inl SyntaxError
      else parse_string (c # acc) cs)"
| "parse_escape acc [] = Inl SyntaxError"
| "parse_escape acc (e # r) =
     (case simple_escape e of
        Some d \<Rightarrow> parse_string (d # acc) r
      | None \<Rightarrow>
          if e = CHR ''u'' then
            (case r of
               h1 # h2 # h3 # h4 # r' \<Rightarrow>
                 (case unicode_escape [h1, h2, h3, h4] of
                    Inl err \<Rightarrow> Inl err
                  | Inr d \<Rightarrow> parse_string (d # acc) r')
             | _ \<Rightarrow> Inl SyntaxError)
          else Inl SyntaxError)"

text \<open>
  A number: an optional minus sign, an integer part with no leading zero, an optional
  fraction, an optional exponent.
\<close>

definition number_value :: "bool \<Rightarrow> string \<Rightarrow> string \<Rightarrow> bool \<Rightarrow> string \<Rightarrow> real" where
  "number_value neg ip fp eneg ep =
     (if neg then - 1 else 1) *
     (real (digits_val 0 ip) + real (digits_val 0 fp) / 10 ^ length fp) *
     (if eneg then 1 / 10 ^ digits_val 0 ep else 10 ^ digits_val 0 ep)"

definition parse_exponent :: "bool \<Rightarrow> string \<Rightarrow> string \<Rightarrow> string \<Rightarrow> parse_error + (jsval \<times> string)" where
  "parse_exponent neg ip fp s =
     (case s of
        [] \<Rightarrow> Inr (JNumber (Finite (number_value neg ip fp False [])), s)
      | c # cs \<Rightarrow>
          if c = CHR ''e'' \<or> c = CHR ''E'' then
            (let eneg = starts_with ''-'' cs;
                 ds = (if starts_with ''-'' cs \<or> starts_with ''+'' cs then drop 1 cs else cs)
             in if takeWhile is_digit ds = [] then Inl SyntaxError
                else Inr (JNumber (Finite (number_value neg ip fp eneg (takeWhile is_digit ds))),
                          dropWhile is_digit ds))
          else Inr (JNumber (Finite (number_value neg ip fp False [])), s))"

definition parse_number :: "string \<Rightarrow> parse_error + (jsval \<times> string)" where
  "parse_number s =
     (let neg = starts_with ''-'' s;
          s1 = (if neg then drop 1 s else s);
          ip = takeWhile is_digit s1;
          r1 = dropWhile is_digit s1
      in if ip = [] \<or> (1 < length ip \<and> starts_with ''0'' ip) then Inl SyntaxError
         else if starts_with ''.'' r1 then
           (if takeWhile is_digit (drop 1 r1) = [] then Inl SyntaxError
            else parse_exponent neg ip (takeWhile is_digit (drop 1 r1)) (dropWhile is_digit (drop 1 r1)))
         else parse_exponent neg ip [] r1)"

text \<open>
  A property stored in an object: a key that is there already keeps its place and takes
  the new value, as a repeated key of a JSON text does. The engine lists keys that
  are array indices first, in ascending order; the list here keeps the order of the
  text, and none of the keys this program reads or writes is an array index.
\<close>

fun set_property :: "string \<Rightarrow> jsval \<Rightarrow> (string \<times> jsval) list \<Rightarrow> (string \<times> jsval) list" where
  "set_property k v [] = [(k, v)]"
| "set_property k v ((k', v') # kvs) =
     (if k' = k then (k, v) # kvs else (k', v') # set_property k v kvs)"

fun parse_value :: "nat \<Rightarrow> string \<Rightarrow> parse_error + (jsval \<times> string)"
  and parse_elements :: "nat \<Rightarrow> jsval list \<Rightarrow> string \<Rightarrow> parse_error + (jsval \<times> string)"
  and parse_members :: "nat \<Rightarrow> (string \<times> jsval) list \<Rightarrow> string \<Rightarrow> parse_error + (jsval \<times> string)" where
  "parse_value 0 s = Inl OutOfFuel"
| "parse_value (Suc n) s =
     (case skip_ws s of
        [] \<Rightarrow> Inl SyntaxError
      | c # cs \<Rightarrow>
          if c = CHR ''{'' then
            (if starts_with ''}'' (skip_ws cs) then Inr (JObject [], drop 1 (skip_ws cs))
             else parse_members n [] cs)
          else if c = CHR ''['' then
            (if starts_with '']'' (skip_ws cs) then Inr (JArray [], drop 1 (skip_ws cs))
             else parse_elements n [] cs)
          else if c = CHR 0x22 then
            (case parse_string [] cs of
               Inl e \<Rightarrow> Inl e
             | Inr (str, r) \<Rightarrow> Inr (JString str, r))
          else if c = CHR ''-'' \<or> is_digit c then parse_number (c # cs)
          else if starts_with ''true'' (c # cs) then Inr (JBool True, drop 4 (c # cs))
          else if starts_with ''false'' (c # cs) then Inr (JBool False, drop 5 (c # cs))
          else if starts_with ''null'' (c # cs) then Inr (JNull, drop 4 (c # cs))
          else Inl SyntaxError)"
| "parse_elements 0 acc s = Inl OutOfFuel"
| "parse_elements (Suc n) acc s =
     (case parse_value n s of
        Inl e \<Rightarrow> Inl e
      | Inr (v, r) \<Rightarrow>
          (case skip_ws r of
             [] \<Rightarrow> Inl SyntaxError
           | c # cs \<Rightarrow>
               if c = CHR '','' then parse_elements n (v # acc) cs
               else if c = CHR '']'' then Inr (JArray (rev (v # acc)), cs)
               else Inl SyntaxError))"
| "parse_members 0 acc s = Inl OutOfFuel"
| "parse_members (Suc n) acc s =
     (case skip_ws s of
        [] \<Rightarrow> Inl SyntaxError
      | c # cs \<Rightarrow>
          if c \<noteq> CHR 0x22 then Inl SyntaxError
          else
            (case parse_string [] cs of
               Inl e \<Rightarrow> Inl e
             | Inr (k, r) \<Rightarrow>
                 (case skip_ws r of
                    [] \<Rightarrow> Inl SyntaxError
                  | d # ds \<Rightarrow>
                      if d \<noteq> CHR '':'' then Inl SyntaxError
                      else
                        (case parse_value n ds of
                           Inl e \<Rightarrow> Inl e
                         | Inr (v, r2) \<Rightarrow>
                             (case skip_ws r2 of
                                [] \<Rightarrow> Inl SyntaxError
                              | x # xs \<Rightarrow>
                                  if x = CHR '','' then parse_members n (set_property k v acc) xs
                                  else if x = CHR ''}'' then Inr (JObject (set_property k v acc), xs)
                                  else Inl SyntaxError)))))"

text \<open>
  \<open>JSON.parse(s)\<close>: one value, with nothing but white space after it. Every call of the
  reader that uses up one unit of the counter is followed, before the next such call at
  the same depth, by at least one character read, and a level of nesting costs two
  units for at least one character, so twice the length of the text is enough:
  \<open>JSON_parse_fuel\<close> below proves that \<open>JSON_parse\<close> never answers \<open>OutOfFuel\<close>.
\<close>

definition JSON_parse :: "string \<Rightarrow> parse_error + jsval" where
  "JSON_parse s =
     (case parse_value (2 * length s + 2) s of
        Inl e \<Rightarrow> Inl e
      | Inr (v, r) \<Rightarrow> if skip_ws r = [] then Inr v else Inl SyntaxError)"

subsection \<open>Property access\<close>

datatype type_error = TypeError

definition property :: "(string \<times> jsval) list \<Rightarrow> string \<Rightarrow> jsval" where
  "property kvs k = (case map_of kvs k of None \<Rightarrow> JUndefined | Some v \<Rightarrow> v)"

text \<open>
  \<open>v.k\<close> for a property name \<open>k\<close> that no built-in object defines (the names read below
  are \<open>prediction\<close> and the fields of the records): reading a property of \<open>null\<close> or
  \<open>undefined\<close> throws, an object gives its property, any other value gives \<open>undefined\<close>.
\<close>

fun js_get :: "jsval \<Rightarrow> string \<Rightarrow> type_error + jsval" where
  "js_get JUndefined k = Inl TypeError"
| "js_get JNull k = Inl TypeError"
| "js_get (JObject kvs) k = Inr (property kvs k)"
| "js_get v k = Inr JUndefined"

subsection \<open>The data model\<close>

text \<open>
  The interfaces \<open>PredictionParams\<close> and \<open>PredictionRecord\<close>. The field \<open>id\<close> is named
  \<open>record_id\<close> here. The second component calls three of the numeric fields
  \<open>wSRatio\<close>, \<open>wTemperature\<close> and \<open>sTemperature\<close>; the record below carries them under the
  first component's names, and \<open>param_names\<close> gives the names each component uses.
  \<open>prediction\<close> is declared a string and is assigned \<open>data.prediction\<close> of the response,
  which has the type \<open>any\<close>: it is a JavaScript value here.
\<close>

record PredictionParams =
  substrateType :: string
  metalChalcogenRatio :: jsnumber
  hArRatio :: jsnumber
  pressureType :: string
  metalTemperature :: jsnumber
  chalcogenTemperature :: jsnumber
  substratePosition :: string
  reactionTime :: jsnumber
  saltAddition :: string

record PredictionRecord =
  record_id :: string
  material :: string
  params :: PredictionParams
  prediction :: jsval
  timestamp :: string
  remarks :: "string option"

fun param_names :: "component \<Rightarrow> string list" where
  "param_names Api =
     [''substrateType'', ''metalChalcogenRatio'', ''hArRatio'', ''pressureType'',
      ''metalTemperature'', ''chalcogenTemperature'', ''substratePosition'', ''reactionTime'',
      ''saltAddition'']"
| "param_names Demo =
     [''substrateType'', ''wSRatio'', ''hArRatio'', ''pressureType'',
      ''wTemperature'', ''sTemperature'', ''substratePosition'', ''reactionTime'',
      ''saltAddition'']"

text \<open>The state \<open>formData\<close> as the JavaScript object it is, its properties in the order
  of the initial state.\<close>

definition PredictionParams_object :: "component \<Rightarrow> PredictionParams \<Rightarrow> (string \<times> jsval) list" where
  "PredictionParams_object c p =
     zip (param_names c)
       [JString (substrateType p), JNumber (metalChalcogenRatio p), JNumber (hArRatio p),
        JString (pressureType p), JNumber (metalTemperature p), JNumber (chalcogenTemperature p),
        JString (substratePosition p), JNumber (reactionTime p), JString (saltAddition p)]"

text \<open>\<open>formData[field]\<close>.\<close>

definition formData_get :: "component \<Rightarrow> PredictionParams \<Rightarrow> string \<Rightarrow> jsval" where
  "formData_get c p field = property (PredictionParams_object c p) field"

text \<open>A record as a JavaScript object: \<open>remarks\<close> is a property only once it has been set.\<close>

definition PredictionRecord_object :: "component \<Rightarrow> PredictionRecord \<Rightarrow> (string \<times> jsval) list" where
  "PredictionRecord_object c r =
     [(''id'', JString (record_id r)),
      (''material'', JString (material r)),
      (''params'', JObject (PredictionParams_object c (params r))),
      (''prediction'', prediction r),
      (''timestamp'', JString (timestamp r))] @
     (case remarks r of None \<Rightarrow> [] | Some t \<Rightarrow> [(''remarks'', JString t)])"

definition history_value :: "component \<Rightarrow> PredictionRecord list \<Rightarrow> jsval" where
  "history_value c h = JArray (map (\<lambda>r. JObject (PredictionRecord_object c r)) h)"

text \<open>
  The other direction: a JavaScript value read as an array of prediction records, when
  it is one. A record needs its four string fields, its parameters with four strings and
  five numbers, and a \<open>remarks\<close> that is absent or a string; properties the interface does
  not name are not kept.
\<close>

definition string_of :: "jsval \<Rightarrow> string option" where
  "string_of v = (case v of JString t \<Rightarrow> Some t | _ \<Rightarrow> None)"

definition number_of :: "jsval \<Rightarrow> jsnumber option" where
  "number_of v = (case v of JNumber n \<Rightarrow> Some n | _ \<Rightarrow> None)"

definition PredictionParams_of :: "component \<Rightarrow> jsval \<Rightarrow> PredictionParams option" where
  "PredictionParams_of c v =
     (case v of
        JObject kvs \<Rightarrow>
          (case (map (string_of \<circ> property kvs) (map (\<lambda>i. param_names c ! i) [0, 3, 6, 8]),
                 map (number_of \<circ> property kvs) (map (\<lambda>i. param_names c ! i) [1, 2, 4, 5, 7])) of
             ([Some st, Some pt, Some sp, Some sa], [Some mr, Some hr, Some mt, Some ct, Some rt]) \<Rightarrow>
               Some \<lparr>substrateType = st, metalChalcogenRatio = mr, hArRatio = hr, pressureType = pt,
                     metalTemperature = mt, chalcogenTemperature = ct, substratePosition = sp,
                     reactionTime = rt, saltAddition = sa\<rparr>
           | _ \<Rightarrow> None)
      | _ \<Rightarrow> None)"

definition PredictionRecord_of :: "component \<Rightarrow> jsval \<Rightarrow> PredictionRecord option" where
  "PredictionRecord_of c v =
     (case v of
        JObject kvs \<Rightarrow>
          (case (string_of (property kvs ''id''), string_of (property kvs ''material''),
                 PredictionParams_of c (property kvs ''params''),
                 string_of (property kvs ''timestamp'')) of
             (Some i, Some m, Some ps, Some ts) \<Rightarrow>
               (if property kvs ''remarks'' = JUndefined then
                  Some \<lparr>record_id = i, material = m, params = ps,
                        prediction = property kvs ''prediction'', timestamp = ts, remarks = None\<rparr>
                else
                  (case string_of (property kvs ''remarks'') of
                     Some t \<Rightarrow>
                       Some \<lparr>record_id = i, material = m, params = ps,
                             prediction = property kvs ''prediction'', timestamp = ts,
                             remarks = Some t\<rparr>
                   | None \<Rightarrow> None))
           | _ \<Rightarrow> None)
      | _ \<Rightarrow> None)"

fun all_some :: "'a option list \<Rightarrow> 'a list option" where
  "all_some [] = Some []"
| "all_some (None # xs) = None"
| "all_some (Some x # xs) = (case all_some xs of None \<Rightarrow> None | Some ys \<Rightarrow> Some (x # ys))"

definition history_of :: "component \<Rightarrow> jsval \<Rightarrow> PredictionRecord list option" where
  "history_of c v =
     (case v of JArray xs \<Rightarrow> all_some (map (PredictionRecord_of c) xs) | _ \<Rightarrow> None)"

text \<open>
  \<open>[...v]\<close>: an array gives its elements and a string its characters; a value that
  cannot be iterated throws.
\<close>

fun spread :: "jsval \<Rightarrow> type_error + jsval list" where
  "spread (JArray xs) = Inr xs"
| "spread (JString t) = Inr (map (\<lambda>c. JString [c]) t)"
| "spread v = Inl TypeError"

subsection \<open>The browser\<close>

text \<open>
  The cookies of the page are a list of names with their values. Reading
  \<open>document.cookie\<close> gives \<open>name=value\<close> for each, separated by a semicolon and a space.
  Assigning a string to \<open>document.cookie\<close> stores one cookie: the text before the first
  semicolon is split at its first equals sign into the name and the value, both without
  white space around them; the attributes after the semicolon are not kept. A cookie of
  the same name is replaced. Expiry and the size limit of a cookie are not modelled.
\<close>

type_synonym cookie_jar = "(string \<times> string) list"

definition trim :: "string \<Rightarrow> string" where
  "trim t = rev (dropWhile (\<lambda>c. c = CHR 0x20 \<or> c = CHR 0x09)
              (rev (dropWhile (\<lambda>c. c = CHR 0x20 \<or> c = CHR 0x09) t)))"

fun store_cookie :: "string \<Rightarrow> string \<Rightarrow> cookie_jar \<Rightarrow> cookie_jar" where
  "store_cookie n v [] = [(n, v)]"
| "store_cookie n v ((n', v') # jar) =
     (if n' = n then (n, v) # jar else (n', v') # store_cookie n v jar)"

definition document_cookie_get :: "cookie_jar \<Rightarrow> string" where
  "document_cookie_get jar = join ''; '' (map (\<lambda>(n, v). n @ ''='' @ v) jar)"

definition document_cookie_set :: "string \<Rightarrow> cookie_jar \<Rightarrow> cookie_jar" where
  "document_cookie_set t jar =
     (let pair = takeWhile (\<lambda>c. c \<noteq> CHR '';'') t in
      if CHR ''='' \<in> set pair then
        store_cookie (trim (takeWhile (\<lambda>c. c \<noteq> CHR ''='') pair))
          (trim (drop 1 (dropWhile (\<lambda>c. c \<noteq> CHR ''='') pair))) jar
      else jar)"

text \<open>
  The outcome of \<open>fetch\<close>: the promise is rejected, or it resolves to a response with
  its \<open>ok\<close> flag, its status, its status text and its body.
\<close>

datatype fetch_outcome = NetworkError | Response bool nat string string

text \<open>
  What the browser supplies to a handler: the clock (\<open>Date.now()\<close>, read once for a
  handler), the two ways a date is written (\<open>toISOString\<close>, \<open>toUTCString\<close>, from
  milliseconds), the value of \<open>Math.random()\<close>, and the network, which answers a URL
  and a request body.
\<close>

record env =
  date_now :: nat
  toISOString :: "nat \<Rightarrow> string"
  toUTCString :: "nat \<Rightarrow> string"
  math_random :: real
  fetch :: "string \<Rightarrow> string \<Rightarrow> fetch_outcome"

subsection \<open>The state of the component\<close>

datatype toast_variant = Default | Destructive

record toast =
  title :: string
  description :: string
  variant :: toast_variant

text \<open>
  The state variables of \<open>CVDPlatform\<close>, and after them the world outside: the cookies,
  every string assigned to \<open>document.cookie\<close>, the notifications shown and the lines
  written by \<open>console.error\<close> (their first argument).
\<close>

record session =
  selectedMaterial :: string
  formData :: PredictionParams
  isLoading :: bool
  currentPrediction :: jsval
  history :: "PredictionRecord list"
  filteredHistory :: "PredictionRecord list"
  currentPage :: int
  filterMaterial :: string
  filterPrediction :: string
  editingRemarks :: "string option"
  tempRemarks :: string
  document_cookie :: cookie_jar
  cookie_writes :: "string list"
  toasts :: "toast list"
  console :: "string list"

definition initial :: "cookie_jar \<Rightarrow> session" where
  "initial jar =
     \<lparr>selectedMaterial = ''ws2'',
      formData = \<lparr>substrateType = [], metalChalcogenRatio = Finite 0, hArRatio = Finite 0,
                  pressureType = [], metalTemperature = Finite 0, chalcogenTemperature = Finite 0,
                  substratePosition = [], reactionTime = Finite 0, saltAddition = []\<rparr>,
      isLoading = False, currentPrediction = JNull, history = [], filteredHistory = [],
      currentPage = 1, filterMaterial = ''all'', filterPrediction = ''all'',
      editingRemarks = None, tempRemarks = [],
      document_cookie = jar, cookie_writes = [], toasts = [], console = []\<rparr>"

text \<open>The \<open>value\<close> of each entry of \<open>materials\<close>, the options the user chooses from.\<close>

definition materials :: "string list" where
  "materials = [''ws2'', ''mos2'', ''wse2'', ''mose2'']"

definition recordsPerPage :: nat where
  "recordsPerPage = 10"

subsection \<open>The cookie\<close>

text \<open>\<open>s.split(sep)\<close> for a separator that is not empty.\<close>

function split_from :: "string \<Rightarrow> string \<Rightarrow> string \<Rightarrow> string list" where
  "split_from sep acc [] = [rev acc]"
| "split_from sep acc (c # cs) =
     (if sep \<noteq> [] \<and> starts_with sep (c # cs)
      then rev acc # split_from sep [] (drop (length sep) (c # cs))
      else split_from sep (c # acc) cs)"
  by pat_completeness auto
termination
  by (relation "measure (\<lambda>(sep, acc, s). length s)") auto

definition String_split :: "string \<Rightarrow> string \<Rightarrow> string list" where
  "String_split s sep = split_from sep [] s"

definition getCookie :: "string \<Rightarrow> session \<Rightarrow> string option" where
  "getCookie name s =
     (let parts = String_split (''; '' @ document_cookie_get (document_cookie s))
                    (''; '' @ name @ ''='')
      in if length parts = 2 then
           (case String_split (last parts) '';'' of
              [] \<Rightarrow> None
            | x # xs \<Rightarrow> if x = [] then None else Some x)
         else None)"

definition cookie_text :: "env \<Rightarrow> string \<Rightarrow> string \<Rightarrow> nat \<Rightarrow> string" where
  "cookie_text e name v days =
     name @ ''='' @ v @ '';expires='' @
     toUTCString e (date_now e + days * 24 * 60 * 60 * 1000) @ '';path=/''"

definition setCookie :: "env \<Rightarrow> string \<Rightarrow> string \<Rightarrow> nat \<Rightarrow> session \<Rightarrow> session" where
  "setCookie e name v days s =
     s\<lparr>document_cookie := document_cookie_set (cookie_text e name v days) (document_cookie s),
       cookie_writes := cookie_writes s @ [cookie_text e name v days]\<rparr>"

text \<open>\<open>JSON.stringify(newHistory)\<close> as it stands in the call of \<open>setCookie\<close>.\<close>

definition history_text :: "component \<Rightarrow> PredictionRecord list \<Rightarrow> string" where
  "history_text c h = template (JSON_stringify (history_value c h))"

text \<open>
  The effect that loads the history when the component is mounted. The parsed value is
  given to \<open>setHistory\<close> and \<open>setFilteredHistory\<close> as it is. When it is an array of
  prediction records the result is the new state; when it is not, the state variable
  \<open>history\<close> holds a value that its type does not describe, and the result is that
  value (on the left).
\<close>

definition load_history :: "component \<Rightarrow> session \<Rightarrow> jsval + session" where
  "load_history c s =
     (case getCookie ''cvd_history'' s of
        None \<Rightarrow> Inr s
      | Some savedHistory \<Rightarrow>
          (case JSON_parse savedHistory of
             Inl err \<Rightarrow> Inr (s\<lparr>console := console s @ [''Error parsing history from cookies:'']\<rparr>)
           | Inr parsed \<Rightarrow>
               (case history_of c parsed of
                  Some h \<Rightarrow> Inr (s\<lparr>history := h, filteredHistory := h\<rparr>)
                | None \<Rightarrow> Inl parsed)))"

subsection \<open>The view\<close>

text \<open>The effect that filters the history when the history or a filter changes.\<close>

definition filter_effect :: "session \<Rightarrow> session" where
  "filter_effect s =
     (let filtered = history s;
          filtered1 = (if filterMaterial s \<noteq> ''all''
                       then filter (\<lambda>r. material r = filterMaterial s) filtered
                       else filtered);
          filtered2 = (if filterPrediction s \<noteq> ''all''
                       then filter (\<lambda>r. prediction r = JString (filterPrediction s)) filtered1
                       else filtered1)
      in s\<lparr>filteredHistory := filtered2, currentPage := 1\<rparr>)"

text \<open>\<open>xs.slice(start, end)\<close>: a negative index counts from the end.\<close>

definition Array_slice :: "'a list \<Rightarrow> int \<Rightarrow> int \<Rightarrow> 'a list" where
  "Array_slice xs start stop =
     (let len = int (length xs);
          k = (if start < 0 then max (len + start) 0 else min start len);
          final = (if stop < 0 then max (len + stop) 0 else min stop len)
      in take (nat (final - k)) (drop (nat k) xs))"

definition totalPages :: "session \<Rightarrow> int" where
  "totalPages s = \<lceil>real (length (filteredHistory s)) / real recordsPerPage\<rceil>"

definition startIndex :: "session \<Rightarrow> int" where
  "startIndex s = (currentPage s - 1) * int recordsPerPage"

definition endIndex :: "session \<Rightarrow> int" where
  "endIndex s = startIndex s + int recordsPerPage"

definition currentRecords :: "session \<Rightarrow> PredictionRecord list" where
  "currentRecords s = Array_slice (filteredHistory s) (startIndex s) (endIndex s)"

text \<open>
  The two page buttons. They are rendered only when there is more than one page, and a
  disabled button passes no click on.
\<close>

definition previous_page :: "session \<Rightarrow> session" where
  "previous_page s =
     (if 1 < totalPages s \<and> currentPage s \<noteq> 1
      then s\<lparr>currentPage := max 1 (currentPage s - 1)\<rparr> else s)"

definition next_page :: "session \<Rightarrow> session" where
  "next_page s =
     (if 1 < totalPages s \<and> currentPage s \<noteq> totalPages s
      then s\<lparr>currentPage := min (totalPages s) (currentPage s + 1)\<rparr> else s)"

subsection \<open>Validation\<close>

definition is_upper :: "char \<Rightarrow> bool" where
  "is_upper c = (65 \<le> (of_char c :: nat) \<and> (of_char c :: nat) \<le> 90)"

definition to_lower :: "char \<Rightarrow> char" where
  "to_lower c = (if is_upper c then ''abcdefghijklmnopqrstuvwxyz'' ! ((of_char c :: nat) - 65) else c)"

text \<open>\<open>field.replace(/([A-Z])/g, ' $1').toLowerCase()\<close>, on the ASCII names of the fields.\<close>

definition field_label :: "string \<Rightarrow> string" where
  "field_label field = map to_lower (concat (map (\<lambda>c. if is_upper c then [CHR 0x20, c] else [c]) field))"

definition requiredFields :: "string list" where
  "requiredFields = [''substrateType'', ''pressureType'', ''substratePosition'', ''saltAddition'']"

fun numericFields :: "component \<Rightarrow> string list" where
  "numericFields Api =
     [''metalChalcogenRatio'', ''hArRatio'', ''metalTemperature'', ''chalcogenTemperature'', ''reactionTime'']"
| "numericFields Demo =
     [''wSRatio'', ''hArRatio'', ''wTemperature'', ''sTemperature'', ''reactionTime'']"

text \<open>The two loops of \<open>validateForm\<close>: the first field at which each returns.\<close>

fun first_missing :: "component \<Rightarrow> PredictionParams \<Rightarrow> string list \<Rightarrow> string option" where
  "first_missing c p [] = None"
| "first_missing c p (field # others) =
     (if falsy (formData_get c p field) then Some field else first_missing c p others)"

definition invalid_number :: "jsval \<Rightarrow> bool" where
  "invalid_number v = (case v of JNumber n \<Rightarrow> le_zero n \<or> isNaN n | _ \<Rightarrow> False)"

fun first_invalid :: "component \<Rightarrow> PredictionParams \<Rightarrow> string list \<Rightarrow> string option" where
  "first_invalid c p [] = None"
| "first_invalid c p (field # others) =
     (if invalid_number (formData_get c p field) then Some field else first_invalid c p others)"

text \<open>\<open>validateForm\<close>: what it returns, and the notification it shows.\<close>

definition validateForm :: "component \<Rightarrow> PredictionParams \<Rightarrow> bool \<times> toast list" where
  "validateForm c p =
     (case first_missing c p requiredFields of
        Some field \<Rightarrow>
          (False, [\<lparr>title = ''Validation Error'',
                    description = ''Please select '' @ field_label field,
                    variant = Destructive\<rparr>])
      | None \<Rightarrow>
          (case first_invalid c p (numericFields c) of
             Some field \<Rightarrow>
               (False, [\<lparr>title = ''Validation Error'',
                         description = ''Please enter a valid '' @ field_label field,
                         variant = Destructive\<rparr>])
           | None \<Rightarrow> (True, [])))"

subsection \<open>Submitting the form\<close>

text \<open>
  \<open>materialMap\<close> and the look-up \<open>materialMap[selectedMaterial] || 'WSe2'\<close>. The
  properties every JavaScript object inherits (\<open>toString\<close> and the like) are not
  modelled: a name outside the map gives the default.
\<close>

definition materialMap :: "(string \<times> string) list" where
  "materialMap = [(''ws2'', ''WSe2''), (''mos2'', ''MoS2''), (''wse2'', ''WSe2''), (''mose2'', ''MoSe2'')]"

definition apiMaterial :: "string \<Rightarrow> string" where
  "apiMaterial m = (if falsy (property (map (\<lambda>(k, v). (k, JString v)) materialMap) m)
                    then ''WSe2''
                    else ToString (property (map (\<lambda>(k, v). (k, JString v)) materialMap) m))"

definition apiUrl :: "component \<Rightarrow> session \<Rightarrow> string" where
  "apiUrl c s =
     (case c of
        Api \<Rightarrow> ''http://127.0.0.1:5000/predict/'' @ apiMaterial (selectedMaterial s)
      | Demo \<Rightarrow> ''/predict/'' @ selectedMaterial s)"

text \<open>
  The block that both components repeat under the comment \<open>Add to history\<close>: the new
  record, the new history, the cookie and the notification.
\<close>

definition add_to_history :: "component \<Rightarrow> env \<Rightarrow> jsval \<Rightarrow> session \<Rightarrow> session" where
  "add_to_history c e p s =
     (let newRecord = \<lparr>record_id = nat_digits (date_now e), material = selectedMaterial s,
                       params = formData s, prediction = p,
                       timestamp = toISOString e (date_now e), remarks = None\<rparr>;
          newHistory = newRecord # history s;
          s1 = setCookie e ''cvd_history'' (history_text c newHistory) 30
                 (s\<lparr>currentPrediction := p, history := newHistory\<rparr>)
      in s1\<lparr>toasts := toasts s1 @
            [\<lparr>title = ''Prediction Complete'', description = ''Result: '' @ ToString p,
              variant = Default\<rparr>]\<rparr>)"

text \<open>The simulated prediction of the second component.\<close>

definition predictions :: "string list" where
  "predictions = [''excellent'', ''qualified'', ''no yield'']"

definition at_index :: "string list \<Rightarrow> int \<Rightarrow> jsval" where
  "at_index xs i = (if 0 \<le> i \<and> i < int (length xs) then JString (xs ! nat i) else JUndefined)"

definition simulate :: "env \<Rightarrow> jsval" where
  "simulate e = at_index predictions \<lfloor>math_random e * real (length predictions)\<rfloor>"

text \<open>
  The \<open>catch\<close> clause of each component, and the branch each takes for a response that
  is not \<open>ok\<close>.
\<close>

fun on_exception :: "component \<Rightarrow> env \<Rightarrow> session \<Rightarrow> session" where
  "on_exception Api e s =
     s\<lparr>toasts := toasts s @
          [\<lparr>title = ''Network Error'',
            description = ''Failed to connect to the prediction server. Please check if the server is running.'',
            variant = Destructive\<rparr>],
       console := console s @ [''Network error:'']\<rparr>"
| "on_exception Demo e s =
     add_to_history Demo e (simulate e) (s\<lparr>console := console s @ [''Prediction error:'']\<rparr>)"

fun on_not_ok :: "component \<Rightarrow> env \<Rightarrow> nat \<Rightarrow> string \<Rightarrow> session \<Rightarrow> session" where
  "on_not_ok Api e status statusText s =
     s\<lparr>toasts := toasts s @
          [\<lparr>title = ''API Error'',
            description = ''Server returned '' @ nat_digits status @ '': '' @ statusText,
            variant = Destructive\<rparr>],
       console := console s @ [''API Error:'', ''Error details:'']\<rparr>"
| "on_not_ok Demo e status statusText s = add_to_history Demo e (simulate e) s"

text \<open>
  The \<open>try\<close> block with its \<open>catch\<close>: the request, whose body is
  \<open>JSON.stringify(formData)\<close>, and what follows from its outcome.
\<close>

definition request_body :: "component \<Rightarrow> session \<Rightarrow> string" where
  "request_body c s = template (JSON_stringify (JObject (PredictionParams_object c (formData s))))"

definition request :: "component \<Rightarrow> env \<Rightarrow> session \<Rightarrow> session" where
  "request c e s =
     (case fetch e (apiUrl c s) (request_body c s) of
        NetworkError \<Rightarrow> on_exception c e s
      | Response ok status statusText body \<Rightarrow>
          if ok then
            (case JSON_parse body of
               Inl err \<Rightarrow> on_exception c e s
             | Inr data \<Rightarrow>
                 (case js_get data ''prediction'' of
                    Inl err \<Rightarrow> on_exception c e s
                  | Inr p \<Rightarrow> add_to_history c e p s))
          else on_not_ok c e status statusText s)"

definition handleSubmit :: "component \<Rightarrow> env \<Rightarrow> session \<Rightarrow> session" where
  "handleSubmit c e s =
     (case validateForm c (formData s) of
        (valid, shown) \<Rightarrow>
          if \<not> valid then s\<lparr>toasts := toasts s @ shown\<rparr>
          else (request c e (s\<lparr>isLoading := True, currentPrediction := JNull\<rparr>))\<lparr>isLoading := False\<rparr>)"

subsection \<open>Editing and deleting\<close>

definition handleRemarksEdit :: "component \<Rightarrow> env \<Rightarrow> string \<Rightarrow> string \<Rightarrow> session \<Rightarrow> session" where
  "handleRemarksEdit c e recordId newRemarks s =
     (let updatedHistory =
            map (\<lambda>r. if record_id r = recordId then r\<lparr>remarks := Some newRemarks\<rparr> else r) (history s)
      in (setCookie e ''cvd_history'' (history_text c updatedHistory) 30
            (s\<lparr>history := updatedHistory\<rparr>))\<lparr>editingRemarks := None, tempRemarks := []\<rparr>)"

text \<open>Only the first component has \<open>handleDeleteRecord\<close>.\<close>

definition handleDeleteRecord :: "env \<Rightarrow> string \<Rightarrow> session \<Rightarrow> session" where
  "handleDeleteRecord e recordId s =
     (let updatedHistory = filter (\<lambda>r. record_id r \<noteq> recordId) (history s);
          s1 = setCookie e ''cvd_history'' (history_text Api updatedHistory) 30
                 (s\<lparr>history := updatedHistory\<rparr>)
      in s1\<lparr>toasts := toasts s1 @
            [\<lparr>title = ''Record Deleted'',
              description = ''Prediction record has been removed from history.'',
              variant = Default\<rparr>]\<rparr>)"

subsection \<open>A session\<close>

text \<open>
  Mounting the component: the state starts from its initial values, the history is
  loaded from the cookie and the filter effect runs.
\<close>

definition mount :: "component \<Rightarrow> cookie_jar \<Rightarrow> jsval + session" where
  "mount c jar =
     (case load_history c (initial jar) of Inl v \<Rightarrow> Inl v | Inr s \<Rightarrow> Inr (filter_effect s))"

text \<open>
  What the user does, one event at a time. A handler that gives \<open>setHistory\<close> a new
  array, or a filter that changes, makes the filter effect run. Editing the form is one
  event for any number of calls of \<open>handleInputChange\<close>. The second component has no
  button that deletes a record.
\<close>

datatype event =
    Submit env
  | EditRemarks env string string
  | DeleteRecord env string
  | SetFilterMaterial string
  | SetFilterPrediction string
  | PreviousPage
  | NextPage
  | SelectMaterial string
  | ChangeForm PredictionParams

fun step :: "component \<Rightarrow> event \<Rightarrow> session \<Rightarrow> session" where
  "step c (Submit e) s =
     (if history (handleSubmit c e s) = history s then handleSubmit c e s
      else filter_effect (handleSubmit c e s))"
| "step c (EditRemarks e recordId newRemarks) s =
     filter_effect (handleRemarksEdit c e recordId newRemarks s)"
| "step c (DeleteRecord e recordId) s =
     (case c of Api \<Rightarrow> filter_effect (handleDeleteRecord e recordId s) | Demo \<Rightarrow> s)"
| "step c (SetFilterMaterial m) s =
     (if m = filterMaterial s then s else filter_effect (s\<lparr>filterMaterial := m\<rparr>))"
| "step c (SetFilterPrediction p) s =
     (if p = filterPrediction s then s else filter_effect (s\<lparr>filterPrediction := p\<rparr>))"
| "step c PreviousPage s = previous_page s"
| "step c NextPage s = next_page s"
| "step c (SelectMaterial m) s =
     (case c of
        Api \<Rightarrow> if m = selectedMaterial s then s
               else s\<lparr>selectedMaterial := m, currentPrediction := JNull\<rparr>
      | Demo \<Rightarrow> s\<lparr>selectedMaterial := m\<rparr>)"
| "step c (ChangeForm p) s = s\<lparr>formData := p\<rparr>"

fun run :: "component \<Rightarrow> event list \<Rightarrow> session \<Rightarrow> session" where
  "run c [] s = s"
| "run c (ev # evs) s = run c evs (step c ev s)"

text \<open>The clock readings of the submissions among the events, in their order.\<close>

fun clocks :: "event list \<Rightarrow> nat list" where
  "clocks [] = []"
| "clocks (Submit e # evs) = date_now e # clocks evs"
| "clocks (ev # evs) = clocks evs"

text \<open>The number an identifier is the decimal text of.\<close>

definition id_number :: "PredictionRecord \<Rightarrow> nat" where
  "id_number r = digits_val 0 (record_id r)"

definition time_derived :: "PredictionRecord \<Rightarrow> bool" where
  "time_derived r = (record_id r = nat_digits (id_number r))"

definition page_in_range :: "session \<Rightarrow> bool" where
  "page_in_range s = (1 \<le> currentPage s \<and> currentPage s \<le> max 1 (totalPages s))"

subsection \<open>The validation as the specification words it\<close>

text \<open>
  The nine checks one after the other, in the order of the specification, each with
  the message the user reads. A number is rejected when it is at most zero or not a
  number.
\<close>

definition failed :: "string \<Rightarrow> bool \<times> toast list" where
  "failed message =
     (False, [\<lparr>title = ''Validation Error'', description = message, variant = Destructive\<rparr>])"

definition rejected :: "jsnumber \<Rightarrow> bool" where
  "rejected n = (le_zero n \<or> isNaN n)"

definition validate_in_order :: "PredictionParams \<Rightarrow> bool \<times> toast list" where
  "validate_in_order p =
     (if substrateType p = [] then failed ''Please select substrate type''
      else if pressureType p = [] then failed ''Please select pressure type''
      else if substratePosition p = [] then failed ''Please select substrate position''
      else if saltAddition p = [] then failed ''Please select salt addition''
      else if rejected (metalChalcogenRatio p) then failed ''Please enter a valid metal chalcogen ratio''
      else if rejected (hArRatio p) then failed ''Please enter a valid h ar ratio''
      else if rejected (metalTemperature p) then failed ''Please enter a valid metal temperature''
      else if rejected (chalcogenTemperature p) then failed ''Please enter a valid chalcogen temperature''
      else if rejected (reactionTime p) then failed ''Please enter a valid reaction time''
      else (True, []))"

subsection \<open>Sample inputs\<close>

definition sample_params :: PredictionParams where
  "sample_params =
     \<lparr>substrateType = ''sapphire'', metalChalcogenRatio = Finite (1 / 2), hArRatio = Finite 2,
      pressureType = ''low'', metalTemperature = Finite 800, chalcogenTemperature = Finite 200,
      substratePosition = ''top'', reactionTime = Finite 15, saltAddition = ''yes''\<rparr>"

definition sample_session :: session where
  "sample_session = (initial [])\<lparr>selectedMaterial := ''mos2'', formData := sample_params\<rparr>"

text \<open>An endpoint that answers every request with the label \<open>excellent\<close>.\<close>

definition online_env :: env where
  \<open>online_env =
     \<lparr>date_now = 1700000000000,
      toISOString = (\<lambda>n. ''2023-11-14T22:13:20.000Z''),
      toUTCString = (\<lambda>n. ''Thu, 14 Dec 2023 22:13:20 GMT''),
      math_random = 1 / 2,
      fetch = (\<lambda>url body. Response True 200 ''OK'' ''{"prediction":"excellent"}'')\<rparr>\<close>

text \<open>An endpoint that cannot be reached.\<close>

definition offline_env :: env where
  "offline_env = online_env\<lparr>fetch := (\<lambda>url body. NetworkError)\<rparr>"

text \<open>A history of 25 records, numbered from 1.\<close>

definition numbered_record :: "nat \<Rightarrow> PredictionRecord" where
  "numbered_record n =
     \<lparr>record_id = nat_digits n, material = ''mos2'', params = sample_params,
      prediction = JString ''excellent'', timestamp = ''2023-11-14T22:13:20.000Z'',
      remarks = None\<rparr>"

definition sample_history :: "PredictionRecord list" where
  "sample_history = map numbered_record [1..<26]"

text \<open>A session with two records, and a session that shows a page of the 25 records.\<close>

definition two_records :: session where
  "two_records =
     sample_session\<lparr>history := [numbered_record 2, numbered_record 1],
                     filteredHistory := [numbered_record 2, numbered_record 1]\<rparr>"

definition on_page :: "int \<Rightarrow> session" where
  "on_page p =
     sample_session\<lparr>history := sample_history, filteredHistory := sample_history,
                     currentPage := p\<rparr>"

text \<open>An endpoint that answers with the status 500.\<close>

definition failing_env :: env where
  "failing_env =
     online_env\<lparr>fetch := (\<lambda>url body. Response False 500 ''Internal Server Error'' [])\<rparr>"

text \<open>
  Parameters whose first numeric field is infinite, and parameters that lack the
  pressure regime and have a reaction time of zero.
\<close>

definition infinite_params :: PredictionParams where
  "infinite_params = sample_params\<lparr>metalChalcogenRatio := PosInfinity\<rparr>"

definition incomplete_params :: PredictionParams where
  "incomplete_params = sample_params\<lparr>pressureType := [], reactionTime := Finite 0\<rparr>"

text \<open>
  A submission followed by an edit of the remark of the record it created, and the
  component mounted anew on the cookies that a session has left.
\<close>

definition remark_events :: "string \<Rightarrow> event list" where
  "remark_events t = [Submit online_env, EditRemarks online_env ''1700000000000'' t]"

definition reloaded :: "component \<Rightarrow> session \<Rightarrow> jsval + session" where
  "reloaded c s = mount c (document_cookie s)"

section \<open>Properties\<close>

subsection \<open>What each handler leaves alone\<close>

lemma setCookie_fields [simp]:
  "history (setCookie e n v d s) = history s"
  "toasts (setCookie e n v d s) = toasts s"
  "console (setCookie e n v d s) = console s"
  "filteredHistory (setCookie e n v d s) = filteredHistory s"
  "currentPage (setCookie e n v d s) = currentPage s"
  "filterMaterial (setCookie e n v d s) = filterMaterial s"
  "filterPrediction (setCookie e n v d s) = filterPrediction s"
  "selectedMaterial (setCookie e n v d s) = selectedMaterial s"
  "formData (setCookie e n v d s) = formData s"
  "currentPrediction (setCookie e n v d s) = currentPrediction s"
  "cookie_writes (setCookie e n v d s) = cookie_writes s @ [cookie_text e n v d]"
  "document_cookie (setCookie e n v d s) = document_cookie_set (cookie_text e n v d) (document_cookie s)"
  by (simp_all add: setCookie_def)

lemma handleDeleteRecord_fields:
  "history (handleDeleteRecord e i s) = filter (\<lambda>r. record_id r \<noteq> i) (history s)"
  "cookie_writes (handleDeleteRecord e i s) =
     cookie_writes s @
       [cookie_text e ''cvd_history''
          (history_text Api (filter (\<lambda>r. record_id r \<noteq> i) (history s))) 30]"
  "document_cookie (handleDeleteRecord e i s) =
     document_cookie_set
       (cookie_text e ''cvd_history''
          (history_text Api (filter (\<lambda>r. record_id r \<noteq> i) (history s))) 30)
       (document_cookie s)"
  "toasts (handleDeleteRecord e i s) =
     toasts s @ [\<lparr>title = ''Record Deleted'',
                  description = ''Prediction record has been removed from history.'',
                  variant = Default\<rparr>]"
  "console (handleDeleteRecord e i s) = console s"
  "filteredHistory (handleDeleteRecord e i s) = filteredHistory s"
  "currentPage (handleDeleteRecord e i s) = currentPage s"
  by (simp_all add: handleDeleteRecord_def Let_def)

lemma add_to_history_view [simp]:
  "filteredHistory (add_to_history c e p s) = filteredHistory s"
  "currentPage (add_to_history c e p s) = currentPage s"
  by (simp_all add: add_to_history_def Let_def)

lemma add_to_history_fields:
  "history (add_to_history c e p s) =
     \<lparr>record_id = nat_digits (date_now e), material = selectedMaterial s, params = formData s,
      prediction = p, timestamp = toISOString e (date_now e), remarks = None\<rparr> # history s"
  "currentPrediction (add_to_history c e p s) = p"
  "toasts (add_to_history c e p s) =
     toasts s @ [\<lparr>title = ''Prediction Complete'', description = ''Result: '' @ ToString p,
                  variant = Default\<rparr>]"
  "console (add_to_history c e p s) = console s"
  "cookie_writes (add_to_history c e p s) =
     cookie_writes s @
       [cookie_text e ''cvd_history''
          (history_text c (\<lparr>record_id = nat_digits (date_now e), material = selectedMaterial s,
             params = formData s, prediction = p, timestamp = toISOString e (date_now e),
             remarks = None\<rparr> # history s)) 30]"
  "document_cookie (add_to_history c e p s) =
     document_cookie_set
       (cookie_text e ''cvd_history''
          (history_text c (\<lparr>record_id = nat_digits (date_now e), material = selectedMaterial s,
             params = formData s, prediction = p, timestamp = toISOString e (date_now e),
             remarks = None\<rparr> # history s)) 30)
       (document_cookie s)"
  "formData (add_to_history c e p s) = formData s"
  "selectedMaterial (add_to_history c e p s) = selectedMaterial s"
  by (simp_all add: add_to_history_def Let_def)

lemma request_view:
  "filteredHistory (request c e s) = filteredHistory s \<and> currentPage (request c e s) = currentPage s"
  by (cases c) (simp_all add: request_def split: fetch_outcome.splits sum.splits)

lemma handleSubmit_view:
  "filteredHistory (handleSubmit c e s) = filteredHistory s \<and>
   currentPage (handleSubmit c e s) = currentPage s"
  by (simp add: handleSubmit_def request_view split: prod.splits)

lemma handleSubmit_invalid:
  "\<not> fst (validateForm c (formData s)) \<Longrightarrow>
   handleSubmit c e s = s\<lparr>toasts := toasts s @ snd (validateForm c (formData s))\<rparr>"
  by (cases "validateForm c (formData s)") (simp add: handleSubmit_def)

lemma handleSubmit_valid:
  "fst (validateForm c (formData s)) \<Longrightarrow>
   handleSubmit c e s =
     (request c e (s\<lparr>isLoading := True, currentPrediction := JNull\<rparr>))\<lparr>isLoading := False\<rparr>"
  by (cases "validateForm c (formData s)") (simp add: handleSubmit_def)

lemma loading_irrelevant [simp]:
  "apiUrl c (s\<lparr>isLoading := b, currentPrediction := v\<rparr>) = apiUrl c s"
  "request_body c (s\<lparr>isLoading := b, currentPrediction := v\<rparr>) = request_body c s"
  by (simp_all add: apiUrl_def request_body_def split: component.splits)

lemma request_labelled:
  assumes "fetch e (apiUrl c s) (request_body c s) = Response True status statusText body"
    and "JSON_parse body = Inr data"
    and "js_get data ''prediction'' = Inr p"
  shows "request c e s = add_to_history c e p s"
  using assms by (simp add: request_def)

lemma request_unreachable_Demo:
  assumes "fetch e (apiUrl Demo s) (request_body Demo s) = NetworkError"
  shows "request Demo e s =
         add_to_history Demo e (simulate e) (s\<lparr>console := console s @ [''Prediction error:'']\<rparr>)"
  using assms by (simp add: request_def)

lemma request_not_ok_Demo:
  assumes "fetch e (apiUrl Demo s) (request_body Demo s) = Response False status statusText body"
  shows "request Demo e s = add_to_history Demo e (simulate e) s"
  using assms by (simp add: request_def)

lemma request_unreachable_Api:
  assumes "fetch e (apiUrl Api s) (request_body Api s) = NetworkError"
  shows "request Api e s =
         s\<lparr>toasts := toasts s @
          [\<lparr>title = ''Network Error'',
            description = ''Failed to connect to the prediction server. Please check if the server is running.'',
            variant = Destructive\<rparr>],
       console := console s @ [''Network error:'']\<rparr>"
  using assms by (simp add: request_def)

lemma handleSubmit_labelled:
  assumes v: "fst (validateForm c (formData s))"
    and f: "fetch e (apiUrl c s) (request_body c s) = Response True status statusText body"
    and d: "JSON_parse body = Inr data"
    and l: "js_get data ''prediction'' = Inr p"
  shows "handleSubmit c e s =
         (add_to_history c e p (s\<lparr>isLoading := True, currentPrediction := JNull\<rparr>))\<lparr>isLoading := False\<rparr>"
proof -
  have "request c e (s\<lparr>isLoading := True, currentPrediction := JNull\<rparr>) =
        add_to_history c e p (s\<lparr>isLoading := True, currentPrediction := JNull\<rparr>)"
    using f d l by (intro request_labelled) simp_all
  then show ?thesis using v by (simp add: handleSubmit_valid)
qed

lemma handleSubmit_history:
  "history (handleSubmit c e s) = history s \<or>
   (\<exists>p. history (handleSubmit c e s) =
      \<lparr>record_id = nat_digits (date_now e), material = selectedMaterial s, params = formData s,
       prediction = p, timestamp = toISOString e (date_now e), remarks = None\<rparr> # history s)"
proof (cases "fst (validateForm c (formData s))")
  case False
  then show ?thesis by (simp add: handleSubmit_invalid)
next
  case True
  let ?s1 = "s\<lparr>isLoading := True, currentPrediction := JNull\<rparr>"
  have "history (request c e ?s1) = history ?s1 \<or>
        (\<exists>p. history (request c e ?s1) =
           \<lparr>record_id = nat_digits (date_now e), material = selectedMaterial ?s1,
            params = formData ?s1, prediction = p, timestamp = toISOString e (date_now e),
            remarks = None\<rparr> # history ?s1)"
    by (cases c) (auto simp add: request_def add_to_history_fields
        split: fetch_outcome.splits sum.splits)
  with True show ?thesis by (simp add: handleSubmit_valid)
qed

lemma handleRemarksEdit_history:
  "history (handleRemarksEdit c e i t s) =
     map (\<lambda>r. if record_id r = i then r\<lparr>remarks := Some t\<rparr> else r) (history s)"
  by (simp add: handleRemarksEdit_def Let_def)

lemma filter_effect_history [simp]: "history (filter_effect s) = history s"
  by (simp add: filter_effect_def Let_def)

lemma previous_page_history [simp]: "history (previous_page s) = history s"
  by (simp add: previous_page_def)

lemma next_page_history [simp]: "history (next_page s) = history s"
  by (simp add: next_page_def)

text \<open>What a step can do to the history.\<close>

lemma step_history:
  "(\<exists>e p. ev = Submit e \<and>
      history (step c ev s) =
        \<lparr>record_id = nat_digits (date_now e), material = selectedMaterial s, params = formData s,
         prediction = p, timestamp = toISOString e (date_now e), remarks = None\<rparr> # history s) \<or>
   (\<exists>i t. history (step c ev s) =
        map (\<lambda>r. if record_id r = i then r\<lparr>remarks := Some t\<rparr> else r) (history s)) \<or>
   (\<exists>i. history (step c ev s) = filter (\<lambda>r. record_id r \<noteq> i) (history s)) \<or>
   history (step c ev s) = history s"
proof (cases ev)
  case (Submit e)
  then show ?thesis using handleSubmit_history [of c e s] by auto
next
  case (EditRemarks e i t)
  then show ?thesis by (auto simp add: handleRemarksEdit_history)
next
  case (DeleteRecord e i)
  then show ?thesis by (cases c) (auto simp add: handleDeleteRecord_fields)
next
  case (SelectMaterial m)
  then show ?thesis by (cases c) auto
qed auto

lemma step_Submit_labelled:
  assumes v: "fst (validateForm c (formData s))"
    and f: "fetch e (apiUrl c s) (request_body c s) = Response True status statusText body"
    and d: "JSON_parse body = Inr data"
    and l: "js_get data ''prediction'' = Inr p"
  shows "history (step c (Submit e) s) =
           \<lparr>record_id = nat_digits (date_now e), material = selectedMaterial s,
            params = formData s, prediction = p, timestamp = toISOString e (date_now e),
            remarks = None\<rparr> # history s \<and>
         formData (step c (Submit e) s) = formData s \<and>
         selectedMaterial (step c (Submit e) s) = selectedMaterial s \<and>
         document_cookie (step c (Submit e) s) =
           document_cookie_set
             (cookie_text e ''cvd_history''
                (history_text c (\<lparr>record_id = nat_digits (date_now e), material = selectedMaterial s,
                   params = formData s, prediction = p, timestamp = toISOString e (date_now e),
                   remarks = None\<rparr> # history s)) 30)
             (document_cookie s)"
proof -
  have h: "handleSubmit c e s =
        (add_to_history c e p (s\<lparr>isLoading := True, currentPrediction := JNull\<rparr>))\<lparr>isLoading := False\<rparr>"
    using v f d l by (rule handleSubmit_labelled)
  show ?thesis
    by (simp add: h add_to_history_fields filter_effect_def Let_def)
qed

subsection \<open>The sample inputs\<close>

lemma sample_digits [simp]:
  "nat_digits (Suc 0) = ''1''" "nat_digits 2 = ''2''" "nat_digits 1700000000000 = ''1700000000000''"
  by (simp_all add: nat_digits.simps digit_char_def)

lemma sample_valid: "validateForm c sample_params = (True, [])"
  by (cases c) (simp_all add: validateForm_def sample_params_def requiredFields_def
      formData_get_def PredictionParams_object_def property_def invalid_number_def)

lemma sample_body: \<open>JSON_parse ''{"prediction":"excellent"}'' = Inr (JObject [(''prediction'', JString ''excellent'')])\<close>
  by code_simp

lemma sample_text:
  \<open>history_text Api
     [\<lparr>record_id = ''1700000000000'', material = ''mos2'', params = sample_params,
       prediction = JString ''excellent'', timestamp = ''2023-11-14T22:13:20.000Z'',
       remarks = None\<rparr>] =
   ''[{"id":"1700000000000","material":"mos2","params":{"substrateType":"sapphire","metalChalcogenRatio":0.5,"hArRatio":2,"pressureType":"low","metalTemperature":800,"chalcogenTemperature":200,"substratePosition":"top","reactionTime":15,"saltAddition":"yes"},"prediction":"excellent","timestamp":"2023-11-14T22:13:20.000Z"}]''\<close>
  by code_simp

lemma online_labelled:
  "fst (validateForm Api (formData s)) \<Longrightarrow>
   history (step Api (Submit (online_env\<lparr>date_now := n\<rparr>)) s) =
     \<lparr>record_id = nat_digits n, material = selectedMaterial s,
      params = formData s, prediction = JString ''excellent'',
      timestamp = ''2023-11-14T22:13:20.000Z'', remarks = None\<rparr> # history s \<and>
   formData (step Api (Submit (online_env\<lparr>date_now := n\<rparr>)) s) = formData s \<and>
   selectedMaterial (step Api (Submit (online_env\<lparr>date_now := n\<rparr>)) s) = selectedMaterial s"
proof -
  assume v: "fst (validateForm Api (formData s))"
  have f: \<open>fetch (online_env\<lparr>date_now := n\<rparr>) (apiUrl Api s) (request_body Api s) =
     Response True 200 ''OK'' ''{"prediction":"excellent"}''\<close>
    by (simp add: online_env_def)
  have l: "js_get (JObject [(''prediction'', JString ''excellent'')]) ''prediction'' = Inr (JString ''excellent'')"
    by (simp add: property_def)
  show ?thesis
    using step_Submit_labelled [OF v f sample_body l] by (simp add: online_env_def)
qed

subsection \<open>What the cookie keeps\<close>

lemma store_cookie_lookup: "map_of (store_cookie n v jar) n = Some v"
  by (induction jar) auto

lemma takeWhile_upto:
  "c \<notin> set xs \<Longrightarrow> takeWhile (\<lambda>x. x \<noteq> c) (xs @ c # ys) = xs"
  by (induction xs) auto

lemma dropWhile_upto:
  "c \<notin> set xs \<Longrightarrow> dropWhile (\<lambda>x. x \<noteq> c) (xs @ c # ys) = c # ys"
  by (induction xs) auto

lemma cookie_stored:
  assumes "CHR '';'' \<notin> set v"
  shows "document_cookie_set (cookie_text e ''cvd_history'' v d) jar =
         store_cookie ''cvd_history'' (trim v) jar"
proof -
  have t: "cookie_text e ''cvd_history'' v d =
        (''cvd_history='' @ v) @ CHR '';'' # (''expires='' @ toUTCString e (date_now e + d * 24 * 60 * 60 * 1000) @ '';path=/'')"
    by (simp add: cookie_text_def)
  have semi: "CHR '';'' \<notin> set (''cvd_history='' @ v)" using assms by simp
  have pair: "takeWhile (\<lambda>c. c \<noteq> CHR '';'') (cookie_text e ''cvd_history'' v d) = ''cvd_history='' @ v"
    unfolding t using semi by (rule takeWhile_upto)
  have n: "takeWhile (\<lambda>c. c \<noteq> CHR ''='') (''cvd_history='' @ v) = ''cvd_history''"
    using takeWhile_upto [of "CHR ''=''" "''cvd_history''" v] by simp
  have r: "dropWhile (\<lambda>c. c \<noteq> CHR ''='') (''cvd_history='' @ v) = CHR ''='' # v"
    using dropWhile_upto [of "CHR ''=''" "''cvd_history''" v] by simp
  show ?thesis
    unfolding document_cookie_set_def pair Let_def n r
    by (simp add: trim_def)
qed

lemma cookie_cut:
  assumes "CHR '';'' \<notin> set a"
  shows "document_cookie_set (cookie_text e ''cvd_history'' (a @ CHR '';'' # b) d) jar =
         store_cookie ''cvd_history'' (trim a) jar"
proof -
  have t: "cookie_text e ''cvd_history'' (a @ CHR '';'' # b) d =
        (''cvd_history='' @ a) @ CHR '';'' #
          (b @ '';expires='' @ toUTCString e (date_now e + d * 24 * 60 * 60 * 1000) @ '';path=/'')"
    by (simp add: cookie_text_def)
  have semi: "CHR '';'' \<notin> set (''cvd_history='' @ a)" using assms by simp
  have pair: "takeWhile (\<lambda>c. c \<noteq> CHR '';'') (cookie_text e ''cvd_history'' (a @ CHR '';'' # b) d) =
        ''cvd_history='' @ a"
    unfolding t using semi by (rule takeWhile_upto)
  have n: "takeWhile (\<lambda>c. c \<noteq> CHR ''='') (''cvd_history='' @ a) = ''cvd_history''"
    using takeWhile_upto [of "CHR ''=''" "''cvd_history''" a] by simp
  have r: "dropWhile (\<lambda>c. c \<noteq> CHR ''='') (''cvd_history='' @ a) = CHR ''='' # a"
    using dropWhile_upto [of "CHR ''=''" "''cvd_history''" a] by simp
  show ?thesis
    unfolding document_cookie_set_def pair Let_def n r
    by (simp add: trim_def)
qed

lemma history_text_shape:
  "history_text c h =
     ''['' @ join '','' (JSON_elements (map (\<lambda>r. JObject (PredictionRecord_object c r)) h)) @ '']''"
  by (simp add: history_text_def history_value_def JSON_stringify_def template_def)

lemma join_Cons: "join sep (x # xs) = x @ (if xs = [] then [] else sep @ join sep xs)"
  by (cases xs) simp_all

lemma JSON_elements_empty: "(JSON_elements xs = []) = (xs = [])"
  by (cases xs) simp_all

lemma history_text_Cons:
  "history_text c (r # h) =
     ''['' @ JSON_text (JObject (PredictionRecord_object c r)) @
     (if h = [] then '']'' else '','' @ drop 1 (history_text c h))"
  by (simp add: history_text_shape join_Cons JSON_elements_empty)

lemma trim_bracketed: "trim (''['' @ m @ '']'') = ''['' @ m @ '']''"
  by (simp add: trim_def)

lemma history_stored:
  assumes "CHR '';'' \<notin> set (history_text c h)"
  shows "map_of (document_cookie_set (cookie_text e ''cvd_history'' (history_text c h) d) jar)
           ''cvd_history'' = Some (history_text c h)"
proof -
  have "trim (history_text c h) = history_text c h"
    unfolding history_text_shape by (rule trim_bracketed)
  then show ?thesis using assms by (simp add: cookie_stored store_cookie_lookup)
qed

lemma split_from_without:
  "sep = c # rest \<Longrightarrow> c \<notin> set v \<Longrightarrow> split_from sep acc v = [rev acc @ v]"
  by (induction v arbitrary: acc) auto

lemma split_from_at_separator:
  "sep \<noteq> [] \<Longrightarrow> split_from sep [] (sep @ v) = [] # split_from sep [] v"
proof -
  assume ne: "sep \<noteq> []"
  have sw: "starts_with sep (sep @ v)" by (induction sep) simp_all
  from ne obtain c cs where "sep @ v = c # cs" by (cases sep) auto
  with ne sw have "split_from sep [] (sep @ v) = rev [] # split_from sep [] (drop (length sep) (sep @ v))"
    by (metis split_from.simps(2))
  then show ?thesis by simp
qed

lemma getCookie_single:
  assumes jar: "document_cookie s = [(''cvd_history'', v)]"
    and semi: "CHR '';'' \<notin> set v"
  shows "getCookie ''cvd_history'' s = (if v = [] then None else Some v)"
proof -
  have doc: "''; '' @ document_cookie_get (document_cookie s) = ''; cvd_history='' @ v"
    by (simp add: jar document_cookie_get_def)
  have rest: "split_from ''; cvd_history='' [] v = [v]"
    using split_from_without [of "''; cvd_history=''" "CHR '';''" _ v "[]"] semi by simp
  have parts: "String_split (''; cvd_history='' @ v) ''; cvd_history='' = [[], v]"
    unfolding String_split_def
    using split_from_at_separator [of "''; cvd_history=''" v] rest by simp
  have inner: "String_split v '';'' = [v]"
    unfolding String_split_def
    using split_from_without [of "'';''" "CHR '';''" "[]" v "[]"] semi by simp
  show ?thesis
    unfolding getCookie_def doc
    using parts inner by simp
qed

subsection \<open>The counter of the JSON reader\<close>

lemma skip_ws_length: "length (skip_ws s) \<le> length s"
  by (simp add: skip_ws_def length_dropWhile_le)

lemma skip_ws_Cons: "skip_ws s = c # cs \<Longrightarrow> Suc (length cs) \<le> length s"
  using skip_ws_length [of s] by simp

lemma parse_string_shorter:
  "parse_string acc s = Inr (k, r) \<Longrightarrow> length r < length s"
  "parse_escape acc s = Inr (k, r) \<Longrightarrow> length r < length s"
proof (induction acc s and acc s arbitrary: k r and k r rule: parse_string_parse_escape.induct)
  case (2 acc c cs)
  then show ?case by (fastforce split: if_splits)
next
  case (4 acc e r')
  then show ?case
    by (fastforce split: option.splits if_splits list.splits sum.splits)
qed simp_all

lemma parse_string_fuel:
  "parse_string acc s \<noteq> Inl OutOfFuel"
  "parse_escape acc s \<noteq> Inl OutOfFuel"
proof (induction acc s and acc s rule: parse_string_parse_escape.induct)
  case (4 acc e r')
  then show ?case
    by (auto simp add: unicode_escape_def split: option.splits if_splits list.splits sum.splits)
qed simp_all

lemma parse_exponent_shorter:
  "parse_exponent neg ip fp s = Inr (v, r) \<Longrightarrow> length r \<le> length s"
proof (cases s)
  case Nil
  assume "parse_exponent neg ip fp s = Inr (v, r)"
  with Nil show ?thesis by (simp add: parse_exponent_def)
next
  case (Cons c cs)
  assume p: "parse_exponent neg ip fp s = Inr (v, r)"
  have a: "length (dropWhile is_digit (drop 1 cs)) \<le> length cs"
    using length_dropWhile_le [of is_digit "drop 1 cs"] by simp
  have b: "length (dropWhile is_digit cs) \<le> length cs"
    by (rule length_dropWhile_le)
  from p Cons consider
    (plain) "r = s"
  | (signed) "r = dropWhile is_digit (drop 1 cs)"
  | (unsigned) "r = dropWhile is_digit cs"
    by (auto simp add: parse_exponent_def Let_def split: if_splits)
  then show ?thesis
  proof cases
    case plain
    then show ?thesis by simp
  next
    case signed
    with a Cons show ?thesis by simp
  next
    case unsigned
    with b Cons show ?thesis by simp
  qed
qed

lemma parse_exponent_fuel: "parse_exponent neg ip fp s \<noteq> Inl OutOfFuel"
  by (auto simp add: parse_exponent_def Let_def split: list.splits if_splits)

lemma dropWhile_shorter: "takeWhile P xs \<noteq> [] \<Longrightarrow> length (dropWhile P xs) < length xs"
  by (induction xs) (auto simp add: less_Suc_eq_le length_dropWhile_le split: if_splits)

lemma parse_number_shorter:
  "parse_number s = Inr (v, r) \<Longrightarrow> length r < length s"
proof -
  assume p: "parse_number s = Inr (v, r)"
  let ?s1 = "if starts_with ''-'' s then drop 1 s else s"
  let ?r1 = "dropWhile is_digit ?s1"
  from p have ne: "takeWhile is_digit ?s1 \<noteq> []"
    by (auto simp add: parse_number_def Let_def split: if_splits)
  then have a: "length ?r1 < length ?s1" by (rule dropWhile_shorter)
  have b: "length ?s1 \<le> length s" by simp
  have c: "length (dropWhile is_digit (drop 1 ?r1)) \<le> length ?r1"
    using length_dropWhile_le [of is_digit "drop 1 ?r1"] by simp
  from p consider
    (frac) "parse_exponent (starts_with ''-'' s) (takeWhile is_digit ?s1)
              (takeWhile is_digit (drop 1 ?r1)) (dropWhile is_digit (drop 1 ?r1)) = Inr (v, r)"
  | (whole) "parse_exponent (starts_with ''-'' s) (takeWhile is_digit ?s1) [] ?r1 = Inr (v, r)"
    by (auto simp add: parse_number_def Let_def split: if_splits)
  then show ?thesis
  proof cases
    case frac
    from parse_exponent_shorter [OF frac] a b c show ?thesis by linarith
  next
    case whole
    from parse_exponent_shorter [OF whole] a b show ?thesis by linarith
  qed
qed

lemma parse_number_fuel: "parse_number s \<noteq> Inl OutOfFuel"
  by (auto simp add: parse_number_def Let_def parse_exponent_fuel split: if_splits)

lemma literal_shorter: "length (drop 4 (c # cs)) < length (c # cs)" "length (drop 5 (c # cs)) < length (c # cs)"
  by simp_all

lemma parse_shorter:
  "parse_value n s = Inr (v, r) \<Longrightarrow> length r < length s"
  "parse_elements n acc s = Inr (v, r) \<Longrightarrow> length r < length s"
  "parse_members n ms s = Inr (v, r) \<Longrightarrow> length r < length s"
proof (induction n s and n acc s and n ms s arbitrary: v r and v r and v r
    rule: parse_value_parse_elements_parse_members.induct)
  case (1 s)
  then show ?case by simp
next
  case (2 n s)
  from "2.prems" obtain c cs where sk: "skip_ws s = c # cs"
    by (cases "skip_ws s") auto
  have len: "Suc (length cs) \<le> length s" using sk by (rule skip_ws_Cons)
  have inner: "length (drop 1 (skip_ws cs)) \<le> length cs"
    using skip_ws_length [of cs] by simp
  show ?case
  proof (cases "c = CHR ''{''")
    case True
    show ?thesis
    proof (cases "starts_with ''}'' (skip_ws cs)")
      case True
      with "2.prems" sk \<open>c = CHR ''{''\<close> have "r = drop 1 (skip_ws cs)" by simp
      with inner len show ?thesis by simp
    next
      case False
      with "2.prems" sk \<open>c = CHR ''{''\<close> have "parse_members n [] cs = Inr (v, r)" by simp
      from "2.IH"(1) [OF sk \<open>c = CHR ''{''\<close> False this] len show ?thesis by simp
    qed
  next
    case notbrace: False
    show ?thesis
    proof (cases "c = CHR ''[''")
      case True
      show ?thesis
      proof (cases "starts_with '']'' (skip_ws cs)")
        case True
        with "2.prems" sk \<open>c = CHR ''[''\<close> have "r = drop 1 (skip_ws cs)" by simp
        with inner len show ?thesis by simp
      next
        case False
        with "2.prems" sk \<open>c = CHR ''[''\<close> have "parse_elements n [] cs = Inr (v, r)" by simp
        from "2.IH"(2) [OF sk notbrace \<open>c = CHR ''[''\<close> False this] len show ?thesis by simp
      qed
    next
      case notbracket: False
      show ?thesis
      proof (cases "c = CHR 0x22")
        case True
        with "2.prems" sk notbrace notbracket obtain str where "parse_string [] cs = Inr (str, r)"
          by (auto split: sum.splits)
        from parse_string_shorter(1) [OF this] len show ?thesis by simp
      next
        case notquote: False
        show ?thesis
        proof (cases "c = CHR ''-'' \<or> is_digit c")
          case True
          with "2.prems" sk notbrace notbracket notquote have "parse_number (c # cs) = Inr (v, r)"
            by simp
          from parse_number_shorter [OF this] len show ?thesis by simp
        next
          case False
          with "2.prems" sk notbrace notbracket notquote
          have "r = drop 4 (c # cs) \<or> r = drop 5 (c # cs)"
            by (simp split: if_splits)
          with literal_shorter [of c cs] len show ?thesis by auto
        qed
      qed
    qed
  qed
next
  case (3 acc s)
  then show ?case by simp
next
  case (4 n acc s)
  from "4.prems" obtain w r1 where val: "parse_value n s = Inr (w, r1)"
    by (auto split: sum.splits)
  from "4.IH"(1) [OF val] have l1: "length r1 < length s" .
  from "4.prems" val obtain c cs where sk: "skip_ws r1 = c # cs"
    by (cases "skip_ws r1") auto
  have l2: "Suc (length cs) \<le> length r1" using sk by (rule skip_ws_Cons)
  show ?case
  proof (cases "c = CHR '',''")
    case True
    with "4.prems" val sk have "parse_elements n (w # acc) cs = Inr (v, r)" by simp
    from "4.IH"(2) [OF val refl sk True this] l1 l2 show ?thesis by simp
  next
    case False
    with "4.prems" val sk have "r = cs" by (simp split: if_splits)
    with l1 l2 show ?thesis by simp
  qed
next
  case (5 ms s)
  then show ?case by simp
next
  case (6 n ms s)
  from "6.prems" obtain c cs where sk: "skip_ws s = c # cs"
    by (cases "skip_ws s") auto
  from "6.prems" sk have nq: "\<not> c \<noteq> CHR 0x22" by (auto split: if_splits)
  from "6.prems" sk nq obtain k r1 where ps: "parse_string [] cs = Inr (k, r1)"
    by (auto split: sum.splits)
  from "6.prems" sk nq ps obtain d ds where sk2: "skip_ws r1 = d # ds"
    by (cases "skip_ws r1") auto
  from "6.prems" sk nq ps sk2 have nc: "\<not> d \<noteq> CHR '':''" by (auto split: if_splits)
  from "6.prems" sk nq ps sk2 nc obtain w r2 where pv: "parse_value n ds = Inr (w, r2)"
    by (auto split: sum.splits)
  from "6.prems" sk nq ps sk2 nc pv obtain x xs where sk3: "skip_ws r2 = x # xs"
    by (cases "skip_ws r2") auto
  have l0: "Suc (length cs) \<le> length s" using sk by (rule skip_ws_Cons)
  have l1: "length r1 < length cs" using ps by (rule parse_string_shorter(1))
  have l2: "Suc (length ds) \<le> length r1" using sk2 by (rule skip_ws_Cons)
  have l3: "length r2 < length ds" by (rule "6.IH"(1) [OF sk nq ps refl sk2 nc pv])
  have l4: "Suc (length xs) \<le> length r2" using sk3 by (rule skip_ws_Cons)
  show ?case
  proof (cases "x = CHR '',''")
    case True
    with "6.prems" sk nq ps sk2 nc pv sk3
    have pm: "parse_members n (set_property k w ms) xs = Inr (v, r)" by simp
    from "6.IH"(2) [OF sk nq ps refl sk2 nc pv refl sk3 True pm] l0 l1 l2 l3 l4
    show ?thesis by simp
  next
    case False
    with "6.prems" sk nq ps sk2 nc pv sk3 have "r = xs" by (simp split: if_splits)
    with l0 l1 l2 l3 l4 show ?thesis by simp
  qed
qed

lemma parse_fuel:
  "parse_value n s = Inl OutOfFuel \<Longrightarrow> n \<le> 2 * length s"
  "parse_elements n acc s = Inl OutOfFuel \<Longrightarrow> n \<le> 2 * length s + 1"
  "parse_members n ms s = Inl OutOfFuel \<Longrightarrow> n \<le> 2 * length s + 1"
proof (induction n s and n acc s and n ms s
    rule: parse_value_parse_elements_parse_members.induct)
  case (1 s)
  then show ?case by simp
next
  case (2 n s)
  from "2.prems" obtain c cs where sk: "skip_ws s = c # cs"
    by (cases "skip_ws s") auto
  have len: "Suc (length cs) \<le> length s" using sk by (rule skip_ws_Cons)
  show ?case
  proof (cases "c = CHR ''{''")
    case True
    show ?thesis
    proof (cases "starts_with ''}'' (skip_ws cs)")
      case True
      with "2.prems" sk \<open>c = CHR ''{''\<close> show ?thesis by simp
    next
      case False
      with "2.prems" sk \<open>c = CHR ''{''\<close> have "parse_members n [] cs = Inl OutOfFuel" by simp
      from "2.IH"(1) [OF sk \<open>c = CHR ''{''\<close> False this] len show ?thesis by simp
    qed
  next
    case notbrace: False
    show ?thesis
    proof (cases "c = CHR ''[''")
      case True
      show ?thesis
      proof (cases "starts_with '']'' (skip_ws cs)")
        case True
        with "2.prems" sk \<open>c = CHR ''[''\<close> show ?thesis by simp
      next
        case False
        with "2.prems" sk \<open>c = CHR ''[''\<close> have "parse_elements n [] cs = Inl OutOfFuel" by simp
        from "2.IH"(2) [OF sk notbrace \<open>c = CHR ''[''\<close> False this] len show ?thesis by simp
      qed
    next
      case notbracket: False
      show ?thesis
      proof (cases "c = CHR 0x22")
        case True
        with "2.prems" sk notbrace notbracket have "parse_string [] cs = Inl OutOfFuel"
          by (auto split: sum.splits)
        with parse_string_fuel(1) show ?thesis by blast
      next
        case notquote: False
        show ?thesis
        proof (cases "c = CHR ''-'' \<or> is_digit c")
          case True
          with "2.prems" sk notbrace notbracket notquote have "parse_number (c # cs) = Inl OutOfFuel"
            by simp
          with parse_number_fuel show ?thesis by blast
        next
          case False
          with "2.prems" sk notbrace notbracket notquote show ?thesis
            by (simp split: if_splits)
        qed
      qed
    qed
  qed
next
  case (3 acc s)
  then show ?case by simp
next
  case (4 n acc s)
  show ?case
  proof (cases "parse_value n s")
    case (Inl e)
    with "4.prems" have "parse_value n s = Inl OutOfFuel" by simp
    from "4.IH"(1) [OF this] show ?thesis by simp
  next
    case (Inr p)
    obtain w r1 where val: "parse_value n s = Inr (w, r1)" using Inr by (cases p) simp
    from parse_shorter(1) [OF val] have l1: "length r1 < length s" .
    from "4.prems" val obtain c cs where sk: "skip_ws r1 = c # cs"
      by (cases "skip_ws r1") auto
    have l2: "Suc (length cs) \<le> length r1" using sk by (rule skip_ws_Cons)
    from "4.prems" val sk have comma: "c = CHR '',''" by (auto split: if_splits)
    with "4.prems" val sk have "parse_elements n (w # acc) cs = Inl OutOfFuel" by simp
    from "4.IH"(2) [OF val refl sk comma this] l1 l2 show ?thesis by simp
  qed
next
  case (5 ms s)
  then show ?case by simp
next
  case (6 n ms s)
  from "6.prems" obtain c cs where sk: "skip_ws s = c # cs"
    by (cases "skip_ws s") auto
  from "6.prems" sk have nq: "\<not> c \<noteq> CHR 0x22" by (auto split: if_splits)
  have "parse_string [] cs \<noteq> Inl OutOfFuel" by (rule parse_string_fuel(1))
  with "6.prems" sk nq obtain k r1 where ps: "parse_string [] cs = Inr (k, r1)"
    by (cases "parse_string [] cs") auto
  from "6.prems" sk nq ps obtain d ds where sk2: "skip_ws r1 = d # ds"
    by (cases "skip_ws r1") auto
  from "6.prems" sk nq ps sk2 have nc: "\<not> d \<noteq> CHR '':''" by (auto split: if_splits)
  have l0: "Suc (length cs) \<le> length s" using sk by (rule skip_ws_Cons)
  have l1: "length r1 < length cs" using ps by (rule parse_string_shorter(1))
  have l2: "Suc (length ds) \<le> length r1" using sk2 by (rule skip_ws_Cons)
  show ?case
  proof (cases "parse_value n ds")
    case (Inl e)
    with "6.prems" sk nq ps sk2 nc have "parse_value n ds = Inl OutOfFuel" by simp
    from "6.IH"(1) [OF sk nq ps refl sk2 nc this] l0 l1 l2 show ?thesis by simp
  next
    case (Inr p)
    obtain w r2 where pv: "parse_value n ds = Inr (w, r2)" using Inr by (cases p) simp
    from parse_shorter(1) [OF pv] have l3: "length r2 < length ds" .
    from "6.prems" sk nq ps sk2 nc pv obtain x xs where sk3: "skip_ws r2 = x # xs"
      by (cases "skip_ws r2") auto
    have l4: "Suc (length xs) \<le> length r2" using sk3 by (rule skip_ws_Cons)
    from "6.prems" sk nq ps sk2 nc pv sk3 have comma: "x = CHR '',''" by (auto split: if_splits)
    with "6.prems" sk nq ps sk2 nc pv sk3
    have "parse_members n (set_property k w ms) xs = Inl OutOfFuel" by simp
    from "6.IH"(2) [OF sk nq ps refl sk2 nc pv refl sk3 comma this] l0 l1 l2 l3 l4
    show ?thesis by simp
  qed
qed

lemma JSON_parse_fuel: "JSON_parse s \<noteq> Inl OutOfFuel"
proof
  assume "JSON_parse s = Inl OutOfFuel"
  then have "parse_value (2 * length s + 2) s = Inl OutOfFuel"
    by (auto simp add: JSON_parse_def split: sum.splits if_splits)
  from parse_fuel(1) [OF this] show False by simp
qed

subsection \<open>Decimal identifiers\<close>

lemma digits_val_append: "digits_val a (xs @ ys) = digits_val (digits_val a xs) ys"
  by (induction xs arbitrary: a) simp_all

lemma digit_val_digit_char: "d < 10 \<Longrightarrow> digit_val (digit_char d) = d"
proof -
  assume "d < 10"
  then have "d = 0 \<or> d = 1 \<or> d = 2 \<or> d = 3 \<or> d = 4 \<or> d = 5 \<or> d = 6 \<or> d = 7 \<or> d = 8 \<or> d = 9"
    by arith
  then show ?thesis
    by (elim disjE) (simp_all add: digit_val_def digit_char_def)
qed

lemma digits_val_nat_digits: "digits_val 0 (nat_digits n) = n"
proof (induction n rule: nat_digits.induct)
  case (1 n)
  show ?case
  proof (cases "n < 10")
    case True
    then show ?thesis
      by (subst nat_digits.simps) (simp add: digit_val_digit_char)
  next
    case False
    then have "digits_val 0 (nat_digits (n div 10)) = n div 10" by (rule "1.IH")
    with False show ?thesis
      by (subst nat_digits.simps) (simp add: digits_val_append digit_val_digit_char)
  qed
qed

lemma nat_digits_inject: "nat_digits m = nat_digits n \<Longrightarrow> m = n"
  by (metis digits_val_nat_digits)

lemma clock_above_identifiers:
  "\<forall>r\<in>set h. id_number r < n \<Longrightarrow> nat_digits n \<notin> record_id ` set h"
proof
  assume below: "\<forall>r\<in>set h. id_number r < n" and "nat_digits n \<in> record_id ` set h"
  then obtain r where r: "r \<in> set h" "record_id r = nat_digits n" by auto
  then have "id_number r = n" by (simp add: id_number_def digits_val_nat_digits)
  with below r(1) show False by auto
qed

subsection \<open>The material codes\<close>

text \<open>
  Claim C5. The look-up from the material to the code of the endpoint has four entries,
  one for each of the four options of the user interface. The four options resolve to
  three different codes: \<open>ws2\<close> and \<open>wse2\<close> share the code \<open>WSe2\<close>, while \<open>mos2\<close> and
  \<open>mose2\<close> each have a code of their own.
\<close>

theorem material_map_three_codes:
  "length materialMap = 4 \<and> map fst materialMap = materials \<and> distinct materials \<and>
   map apiMaterial materials = [''WSe2'', ''MoS2'', ''WSe2'', ''MoSe2''] \<and>
   card (apiMaterial ` set materials) = 3 \<and>
   apiMaterial ''ws2'' = apiMaterial ''wse2'' \<and>
   apiMaterial ''mos2'' \<noteq> apiMaterial ''ws2'' \<and>
   apiMaterial ''mose2'' \<noteq> apiMaterial ''ws2'' \<and>
   apiMaterial ''mos2'' \<noteq> apiMaterial ''mose2''"
proof -
  have codes: "map apiMaterial materials = [''WSe2'', ''MoS2'', ''WSe2'', ''MoSe2'']"
    by (simp add: materialMap_def materials_def apiMaterial_def property_def)
  have "apiMaterial ` set materials = set (map apiMaterial materials)" by simp
  also have "\<dots> = {''WSe2'', ''MoS2'', ''MoSe2''}" unfolding codes by auto
  finally have "card (apiMaterial ` set materials) = 3" by simp
  then show ?thesis
    by (simp add: materialMap_def materials_def apiMaterial_def property_def)
qed

subsection \<open>Validation\<close>

lemma validateForm_in_order: "validateForm Api p = validate_in_order p"
  by (simp add: validateForm_def validate_in_order_def requiredFields_def
      formData_get_def PredictionParams_object_def property_def invalid_number_def
      failed_def rejected_def field_label_def to_lower_def is_upper_def)

lemma accepted_numbers: "(\<not> rejected n) = (n = PosInfinity \<or> (isFinite n \<and> \<not> le_zero n))"
  by (cases n) (simp_all add: rejected_def)

text \<open>
  Claim C2, as amended. \<open>validateForm\<close> is the nine checks in the order of the
  specification: substrate type, pressure regime, substrate position and salt addition
  must not be empty; then the metal/chalcogen ratio, the hydrogen/argon ratio, the two
  temperatures and the reaction time must not be rejected, where a number is rejected
  when it is at most zero or \<open>NaN\<close>. The first check that fails decides the message. A
  finite number above zero passes, and so does positive infinity. When the validation
  fails, \<open>handleSubmit\<close> shows its message and changes neither the history nor the cookie.
\<close>

theorem validation_in_order:
  "validateForm Api p = validate_in_order p \<and>
   (\<not> rejected n) = (n = PosInfinity \<or> (isFinite n \<and> \<not> le_zero n)) \<and>
   (\<not> fst (validateForm c (formData s)) \<longrightarrow>
      history (handleSubmit c e s) = history s \<and>
      cookie_writes (handleSubmit c e s) = cookie_writes s \<and>
      document_cookie (handleSubmit c e s) = document_cookie s \<and>
      toasts (handleSubmit c e s) = toasts s @ snd (validateForm c (formData s)))"
  by (simp add: validateForm_in_order accepted_numbers handleSubmit_invalid)

theorem validation_in_order_witness:
  "\<not> fst (validateForm Api (formData (sample_session\<lparr>formData := incomplete_params\<rparr>))) \<and>
   validateForm Api incomplete_params = failed ''Please select pressure type'' \<and>
   validateForm Api (incomplete_params\<lparr>pressureType := ''low''\<rparr>) =
     failed ''Please enter a valid reaction time'' \<and>
   history (handleSubmit Api online_env (sample_session\<lparr>formData := incomplete_params\<rparr>)) = [] \<and>
   cookie_writes (handleSubmit Api online_env (sample_session\<lparr>formData := incomplete_params\<rparr>)) = [] \<and>
   toasts (handleSubmit Api online_env (sample_session\<lparr>formData := incomplete_params\<rparr>)) =
     [\<lparr>title = ''Validation Error'', description = ''Please select pressure type'',
       variant = Destructive\<rparr>]"
proof -
  let ?s = "sample_session\<lparr>formData := incomplete_params\<rparr>"
  note t = validation_in_order [of incomplete_params "Finite 1" Api ?s online_env]
  note u = validation_in_order [of "incomplete_params\<lparr>pressureType := ''low''\<rparr>" "Finite 1" Api ?s online_env]
  have a: "validateForm Api incomplete_params = failed ''Please select pressure type''"
    using t by (simp add: validate_in_order_def incomplete_params_def sample_params_def)
  have b: "validateForm Api (incomplete_params\<lparr>pressureType := ''low''\<rparr>) =
     failed ''Please enter a valid reaction time''"
    using u by (simp add: validate_in_order_def incomplete_params_def sample_params_def rejected_def)
  have n: "\<not> fst (validateForm Api (formData ?s))"
    by (simp add: a failed_def)
  show ?thesis
    using n a b t by (simp add: failed_def) (simp add: sample_session_def initial_def)
qed

text \<open>
  The claim as it was stated asks for finite numbers. Parameters whose metal/chalcogen
  ratio is positive infinity pass the validation, and the submission creates a record.
\<close>

theorem infinite_ratio_counterexample:
  "\<not> isFinite (metalChalcogenRatio infinite_params) \<and>
   validateForm Api infinite_params = (True, []) \<and>
   length (history (handleSubmit Api online_env (sample_session\<lparr>formData := infinite_params\<rparr>))) = 1"
proof -
  let ?s = "sample_session\<lparr>formData := infinite_params\<rparr>"
  have v: "validateForm Api infinite_params = (True, [])"
    by (simp add: validateForm_in_order validate_in_order_def infinite_params_def sample_params_def
        rejected_def)
  have f: \<open>fetch online_env (apiUrl Api ?s) (request_body Api ?s) =
     Response True 200 ''OK'' ''{"prediction":"excellent"}''\<close>
    by (simp add: online_env_def)
  have l: "js_get (JObject [(''prediction'', JString ''excellent'')]) ''prediction'' = Inr (JString ''excellent'')"
    by (simp add: property_def)
  have "handleSubmit Api online_env ?s =
        (add_to_history Api online_env (JString ''excellent'')
           (?s\<lparr>isLoading := True, currentPrediction := JNull\<rparr>))\<lparr>isLoading := False\<rparr>"
    by (rule handleSubmit_labelled [OF _ f sample_body l]) (simp add: v)
  then show ?thesis
    using v by (simp add: add_to_history_fields) (simp add: infinite_params_def sample_session_def initial_def)
qed

subsection \<open>A submission that the endpoint answers\<close>

text \<open>
  Claim C4, as amended. When the form is valid, the response is \<open>ok\<close> and its body is a JSON value
  whose \<open>prediction\<close> is a string, the first component stores that string as it is,
  whatever it says, in one new record at the front of the history: the record holds the
  selected material, the submitted parameters, the decimal text of the clock as its
  identifier and the date of the clock as its time stamp. Provided that the clock
  reading is above the numbers of the identifiers of the history, the identifier is not
  one of the history, and the identifiers of the new history are distinct when those of
  the old one are. The text assigned to the cookie is the serialised new history, which begins with the new
  record; when that text has no semicolon, it is the value the cookie then has.
\<close>

theorem label_stored_verbatim:
  assumes v: "fst (validateForm Api (formData s))"
    and f: "fetch e (apiUrl Api s) (request_body Api s) = Response True status statusText body"
    and d: "JSON_parse body = Inr data"
    and l: "js_get data ''prediction'' = Inr (JString label)"
  shows "history (handleSubmit Api e s) =
           \<lparr>record_id = nat_digits (date_now e), material = selectedMaterial s,
            params = formData s, prediction = JString label,
            timestamp = toISOString e (date_now e), remarks = None\<rparr> # history s \<and>
         ((\<forall>r\<in>set (history s). id_number r < date_now e) \<longrightarrow>
            nat_digits (date_now e) \<notin> record_id ` set (history s) \<and>
            (distinct (map record_id (history s)) \<longrightarrow>
               distinct (map record_id (history (handleSubmit Api e s))))) \<and>
         history_text Api (history (handleSubmit Api e s)) =
           ''['' @
           JSON_text (JObject (PredictionRecord_object Api
             \<lparr>record_id = nat_digits (date_now e), material = selectedMaterial s,
              params = formData s, prediction = JString label,
              timestamp = toISOString e (date_now e), remarks = None\<rparr>)) @
           (if history s = [] then '']'' else '','' @ drop 1 (history_text Api (history s))) \<and>
         cookie_writes (handleSubmit Api e s) =
           cookie_writes s @
             [cookie_text e ''cvd_history'' (history_text Api (history (handleSubmit Api e s))) 30] \<and>
         document_cookie (handleSubmit Api e s) =
           document_cookie_set
             (cookie_text e ''cvd_history'' (history_text Api (history (handleSubmit Api e s))) 30)
             (document_cookie s) \<and>
         (CHR '';'' \<notin> set (history_text Api (history (handleSubmit Api e s))) \<longrightarrow>
            map_of (document_cookie (handleSubmit Api e s)) ''cvd_history'' =
              Some (history_text Api (history (handleSubmit Api e s)))) \<and>
         currentPrediction (handleSubmit Api e s) = JString label \<and>
         toasts (handleSubmit Api e s) =
           toasts s @ [\<lparr>title = ''Prediction Complete'', description = ''Result: '' @ label,
                        variant = Default\<rparr>] \<and>
         console (handleSubmit Api e s) = console s"
proof -
  have h: "handleSubmit Api e s =
        (add_to_history Api e (JString label)
           (s\<lparr>isLoading := True, currentPrediction := JNull\<rparr>))\<lparr>isLoading := False\<rparr>"
    using v f d l by (rule handleSubmit_labelled)
  have hist: "history (handleSubmit Api e s) =
           \<lparr>record_id = nat_digits (date_now e), material = selectedMaterial s,
            params = formData s, prediction = JString label,
            timestamp = toISOString e (date_now e), remarks = None\<rparr> # history s"
    unfolding h by (simp add: add_to_history_fields)
  have fresh: "(\<forall>r\<in>set (history s). id_number r < date_now e) \<longrightarrow>
            nat_digits (date_now e) \<notin> record_id ` set (history s) \<and>
            (distinct (map record_id (history s)) \<longrightarrow>
               distinct (map record_id (history (handleSubmit Api e s))))"
  proof
    assume "\<forall>r\<in>set (history s). id_number r < date_now e"
    then have "nat_digits (date_now e) \<notin> record_id ` set (history s)"
      by (rule clock_above_identifiers)
    then show "nat_digits (date_now e) \<notin> record_id ` set (history s) \<and>
            (distinct (map record_id (history s)) \<longrightarrow>
               distinct (map record_id (history (handleSubmit Api e s))))"
      unfolding hist by simp
  qed
  have begins: "history_text Api (history (handleSubmit Api e s)) =
           ''['' @
           JSON_text (JObject (PredictionRecord_object Api
             \<lparr>record_id = nat_digits (date_now e), material = selectedMaterial s,
              params = formData s, prediction = JString label,
              timestamp = toISOString e (date_now e), remarks = None\<rparr>)) @
           (if history s = [] then '']'' else '','' @ drop 1 (history_text Api (history s)))"
    unfolding hist by (rule history_text_Cons)
  have rest: "cookie_writes (handleSubmit Api e s) =
           cookie_writes s @
             [cookie_text e ''cvd_history'' (history_text Api (history (handleSubmit Api e s))) 30] \<and>
         document_cookie (handleSubmit Api e s) =
           document_cookie_set
             (cookie_text e ''cvd_history'' (history_text Api (history (handleSubmit Api e s))) 30)
             (document_cookie s) \<and>
         (CHR '';'' \<notin> set (history_text Api (history (handleSubmit Api e s))) \<longrightarrow>
            map_of (document_cookie (handleSubmit Api e s)) ''cvd_history'' =
              Some (history_text Api (history (handleSubmit Api e s)))) \<and>
         currentPrediction (handleSubmit Api e s) = JString label \<and>
         toasts (handleSubmit Api e s) =
           toasts s @ [\<lparr>title = ''Prediction Complete'', description = ''Result: '' @ label,
                        variant = Default\<rparr>] \<and>
         console (handleSubmit Api e s) = console s"
    unfolding h by (simp add: add_to_history_fields history_stored)
  from hist fresh begins rest show ?thesis by blast
qed

theorem label_stored_verbatim_witness:
  \<open>fst (validateForm Api (formData sample_session)) \<and>
   fetch online_env (apiUrl Api sample_session) (request_body Api sample_session) =
     Response True 200 ''OK'' ''{"prediction":"excellent"}'' \<and>
   JSON_parse ''{"prediction":"excellent"}'' = Inr (JObject [(''prediction'', JString ''excellent'')]) \<and>
   js_get (JObject [(''prediction'', JString ''excellent'')]) ''prediction'' = Inr (JString ''excellent'') \<and>
   history (handleSubmit Api online_env sample_session) =
     [\<lparr>record_id = ''1700000000000'', material = ''mos2'', params = sample_params,
       prediction = JString ''excellent'', timestamp = ''2023-11-14T22:13:20.000Z'',
       remarks = None\<rparr>] \<and>
   CHR '';'' \<notin> set (history_text Api (history (handleSubmit Api online_env sample_session))) \<and>
   map_of (document_cookie (handleSubmit Api online_env sample_session)) ''cvd_history'' =
     Some ''[{"id":"1700000000000","material":"mos2","params":{"substrateType":"sapphire","metalChalcogenRatio":0.5,"hArRatio":2,"pressureType":"low","metalTemperature":800,"chalcogenTemperature":200,"substratePosition":"top","reactionTime":15,"saltAddition":"yes"},"prediction":"excellent","timestamp":"2023-11-14T22:13:20.000Z"}]'' \<and>
   fst (validateForm Api (formData two_records)) \<and>
   map id_number (history two_records) = [2, 1] \<and>
   date_now online_env = 1700000000000 \<and>
   ''1700000000000'' \<notin> record_id ` set (history two_records) \<and>
   map record_id (history (handleSubmit Api online_env two_records)) = [''1700000000000'', ''2'', ''1''] \<and>
   distinct (map record_id (history two_records)) \<and>
   distinct (map record_id (history (handleSubmit Api online_env two_records)))\<close>
proof -
  have v: "fst (validateForm Api (formData sample_session))"
    by (simp add: sample_session_def sample_valid)
  have f: \<open>fetch online_env (apiUrl Api s) (request_body Api s) =
     Response True 200 ''OK'' ''{"prediction":"excellent"}''\<close> for s
    by (simp add: online_env_def)
  have l: "js_get (JObject [(''prediction'', JString ''excellent'')]) ''prediction'' = Inr (JString ''excellent'')"
    by (simp add: property_def)
  note t = label_stored_verbatim [OF v f sample_body l]
  have h: "history (handleSubmit Api online_env sample_session) =
     [\<lparr>record_id = ''1700000000000'', material = ''mos2'', params = sample_params,
       prediction = JString ''excellent'', timestamp = ''2023-11-14T22:13:20.000Z'',
       remarks = None\<rparr>]"
    using t by (simp add: sample_session_def initial_def online_env_def)
  have semi: "CHR '';'' \<notin> set (history_text Api (history (handleSubmit Api online_env sample_session)))"
    unfolding h sample_text by simp
  have "map_of (document_cookie (handleSubmit Api online_env sample_session)) ''cvd_history'' =
     Some (history_text Api (history (handleSubmit Api online_env sample_session)))"
    using t semi by blast
  then have stored: \<open>map_of (document_cookie (handleSubmit Api online_env sample_session)) ''cvd_history'' =
     Some ''[{"id":"1700000000000","material":"mos2","params":{"substrateType":"sapphire","metalChalcogenRatio":0.5,"hArRatio":2,"pressureType":"low","metalTemperature":800,"chalcogenTemperature":200,"substratePosition":"top","reactionTime":15,"saltAddition":"yes"},"prediction":"excellent","timestamp":"2023-11-14T22:13:20.000Z"}]''\<close>
    unfolding h sample_text .
  have v2: "fst (validateForm Api (formData two_records))"
    by (simp add: two_records_def sample_session_def sample_valid)
  note u = label_stored_verbatim [OF v2 f sample_body l]
  have ids: "map id_number (history two_records) = [2, 1]"
    by (simp add: two_records_def numbered_record_def id_number_def digit_val_def)
  have now: "date_now online_env = 1700000000000"
    by (simp add: online_env_def)
  have below: "\<forall>r\<in>set (history two_records). id_number r < date_now online_env"
    using ids by (simp add: two_records_def now)
  have "nat_digits (date_now online_env) \<notin> record_id ` set (history two_records)"
    using u below by blast
  then have fresh: "''1700000000000'' \<notin> record_id ` set (history two_records)"
    by (simp add: now)
  have "history (handleSubmit Api online_env two_records) =
     \<lparr>record_id = nat_digits (date_now online_env), material = selectedMaterial two_records,
      params = formData two_records, prediction = JString ''excellent'',
      timestamp = toISOString online_env (date_now online_env), remarks = None\<rparr> #
     history two_records"
    using u by blast
  then have ids2: "map record_id (history (handleSubmit Api online_env two_records)) =
     [''1700000000000'', ''2'', ''1'']"
    by (simp add: now two_records_def numbered_record_def)
  have d0: "distinct (map record_id (history two_records))"
    by (simp add: two_records_def numbered_record_def)
  have d1: "distinct (map record_id (history (handleSubmit Api online_env two_records)))"
    using u below d0 by blast
  show ?thesis
    by (intro conjI) (rule v f sample_body l h semi stored v2 ids now fresh ids2 d0 d1)+
qed

text \<open>
  The claim as it was stated calls the identifier fresh with no condition on the clock.
  A second submission that reads the same clock value as the first one meets every
  condition of the claim: the form is valid, the response is \<open>ok\<close> and its body has a
  label. Its record takes the identifier that the record of the first submission has,
  so the history holds two records with one identifier.
\<close>

theorem clock_not_advanced_counterexample:
  \<open>fst (validateForm Api (formData (handleSubmit Api online_env sample_session))) \<and>
   fetch online_env (apiUrl Api (handleSubmit Api online_env sample_session))
       (request_body Api (handleSubmit Api online_env sample_session)) =
     Response True 200 ''OK'' ''{"prediction":"excellent"}'' \<and>
   JSON_parse ''{"prediction":"excellent"}'' = Inr (JObject [(''prediction'', JString ''excellent'')]) \<and>
   js_get (JObject [(''prediction'', JString ''excellent'')]) ''prediction'' = Inr (JString ''excellent'') \<and>
   map record_id (history (handleSubmit Api online_env sample_session)) = [''1700000000000''] \<and>
   record_id (hd (history (handleSubmit Api online_env (handleSubmit Api online_env sample_session)))) =
     ''1700000000000'' \<and>
   record_id (hd (history (handleSubmit Api online_env (handleSubmit Api online_env sample_session))))
     \<in> record_id ` set (history (handleSubmit Api online_env sample_session)) \<and>
   map record_id (history (handleSubmit Api online_env (handleSubmit Api online_env sample_session))) =
     [''1700000000000'', ''1700000000000''] \<and>
   \<not> distinct (map record_id
     (history (handleSubmit Api online_env (handleSubmit Api online_env sample_session))))\<close>
proof -
  let ?s = "handleSubmit Api online_env sample_session"
  have now: "date_now online_env = 1700000000000"
    by (simp add: online_env_def)
  have v: "fst (validateForm Api (formData sample_session))"
    by (simp add: sample_session_def sample_valid)
  have f: \<open>fetch online_env (apiUrl Api s) (request_body Api s) =
     Response True 200 ''OK'' ''{"prediction":"excellent"}''\<close> for s
    by (simp add: online_env_def)
  have l: "js_get (JObject [(''prediction'', JString ''excellent'')]) ''prediction'' = Inr (JString ''excellent'')"
    by (simp add: property_def)
  have h1: "?s =
        (add_to_history Api online_env (JString ''excellent'')
           (sample_session\<lparr>isLoading := True, currentPrediction := JNull\<rparr>))\<lparr>isLoading := False\<rparr>"
    using v f sample_body l by (rule handleSubmit_labelled)
  have form1: "formData ?s = formData sample_session"
    unfolding h1 by (simp add: add_to_history_fields)
  have ids1: "map record_id (history ?s) = [''1700000000000'']"
    unfolding h1 by (simp add: add_to_history_fields now) (simp add: sample_session_def initial_def)
  have v2: "fst (validateForm Api (formData ?s))"
    unfolding form1 by (rule v)
  have h2: "handleSubmit Api online_env ?s =
        (add_to_history Api online_env (JString ''excellent'')
           (?s\<lparr>isLoading := True, currentPrediction := JNull\<rparr>))\<lparr>isLoading := False\<rparr>"
    using v2 f sample_body l by (rule handleSubmit_labelled)
  have ids2: "map record_id (history (handleSubmit Api online_env ?s)) =
     [''1700000000000'', ''1700000000000'']"
    unfolding h2 by (simp add: add_to_history_fields now ids1)
  have hd2: "record_id (hd (history (handleSubmit Api online_env ?s))) = ''1700000000000''"
    unfolding h2 by (simp add: add_to_history_fields now)
  have old: "record_id (hd (history (handleSubmit Api online_env ?s))) \<in> record_id ` set (history ?s)"
    unfolding hd2 using ids1 by (metis list.set_intros(1) list.set_map)
  have nd: "\<not> distinct (map record_id (history (handleSubmit Api online_env ?s)))"
    unfolding ids2 by simp
  show ?thesis
    by (intro conjI) (rule v2 f sample_body l ids1 hd2 old ids2 nd)+
qed

subsection \<open>A submission that the endpoint does not answer\<close>

lemma floor_thirds:
  fixes r :: real
  assumes "0 \<le> r" "r < 1"
  shows "\<lfloor>r * 3\<rfloor> = (if r < 1 / 3 then 0 else if r < 2 / 3 then 1 else 2)"
proof -
  have "r < 1 / 3 \<Longrightarrow> \<lfloor>r * 3\<rfloor> = 0" using assms by (intro floor_unique) auto
  moreover have "\<not> r < 1 / 3 \<Longrightarrow> r < 2 / 3 \<Longrightarrow> \<lfloor>r * 3\<rfloor> = 1"
    using assms by (intro floor_unique) auto
  moreover have "\<not> r < 2 / 3 \<Longrightarrow> \<lfloor>r * 3\<rfloor> = 2"
    using assms by (intro floor_unique) auto
  ultimately show ?thesis by auto
qed

lemma simulate_thirds:
  assumes "0 \<le> math_random e" "math_random e < 1"
  shows "simulate e =
         (if math_random e < 1 / 3 then JString ''excellent''
          else if math_random e < 2 / 3 then JString ''qualified''
          else JString ''no yield'')"
  using assms by (simp add: simulate_def predictions_def floor_thirds at_index_def)

lemma handleSubmit_simulated:
  assumes v: "fst (validateForm Demo (formData s))"
    and f: "fetch e (apiUrl Demo s) (request_body Demo s) = NetworkError \<or>
            fetch e (apiUrl Demo s) (request_body Demo s) = Response False status statusText body"
  shows "\<exists>s'. handleSubmit Demo e s = (add_to_history Demo e (simulate e) s')\<lparr>isLoading := False\<rparr> \<and>
              history s' = history s \<and> toasts s' = toasts s \<and>
              cookie_writes s' = cookie_writes s \<and> document_cookie s' = document_cookie s \<and>
              selectedMaterial s' = selectedMaterial s \<and> formData s' = formData s"
proof -
  let ?s1 = "s\<lparr>isLoading := True, currentPrediction := JNull\<rparr>"
  let ?s2 = "?s1\<lparr>console := console ?s1 @ [''Prediction error:'']\<rparr>"
  from f show ?thesis
  proof
    assume "fetch e (apiUrl Demo s) (request_body Demo s) = NetworkError"
    then have "request Demo e ?s1 = add_to_history Demo e (simulate e) ?s2"
      by (intro request_unreachable_Demo) simp
    then have "handleSubmit Demo e s = (add_to_history Demo e (simulate e) ?s2)\<lparr>isLoading := False\<rparr>"
      using v by (simp add: handleSubmit_valid)
    then show ?thesis by (intro exI [of _ ?s2]) simp
  next
    assume "fetch e (apiUrl Demo s) (request_body Demo s) = Response False status statusText body"
    then have "request Demo e ?s1 = add_to_history Demo e (simulate e) ?s1"
      by (intro request_not_ok_Demo [where status = status and statusText = statusText and body = body]) simp
    then have "handleSubmit Demo e s = (add_to_history Demo e (simulate e) ?s1)\<lparr>isLoading := False\<rparr>"
      using v by (simp add: handleSubmit_valid)
    then show ?thesis by (intro exI [of _ ?s1]) simp
  qed
qed

text \<open>
  In the first component a valid submission whose request is rejected by the network,
  or answered with a status that is not \<open>ok\<close>, leaves the history and the cookie as
  they are and shows one destructive notification.
\<close>

lemma handleSubmit_failure_Api:
  assumes v: "fst (validateForm Api (formData s))"
    and f: "fetch e (apiUrl Api s) (request_body Api s) = NetworkError \<or>
            fetch e (apiUrl Api s) (request_body Api s) = Response False status statusText body"
  shows "history (handleSubmit Api e s) = history s \<and>
         cookie_writes (handleSubmit Api e s) = cookie_writes s \<and>
         document_cookie (handleSubmit Api e s) = document_cookie s \<and>
         length (toasts (handleSubmit Api e s)) = Suc (length (toasts s)) \<and>
         take (length (toasts s)) (toasts (handleSubmit Api e s)) = toasts s \<and>
         variant (last (toasts (handleSubmit Api e s))) = Destructive \<and>
         title (last (toasts (handleSubmit Api e s))) =
           (if fetch e (apiUrl Api s) (request_body Api s) = NetworkError
            then ''Network Error'' else ''API Error'')"
  using f by (auto simp add: handleSubmit_valid [OF v] request_def)

text \<open>
  Claim C1, as amended. In the second component, a valid submission whose request is
  rejected by the network, or answered with a status that is not \<open>ok\<close>, puts one new
  record at the front of the history. Its label is the entry of \<open>excellent\<close>,
  \<open>qualified\<close>, \<open>no yield\<close> that \<open>Math.random()\<close> selects, each label for one third of
  the values between zero and one. The serialised new history is assigned to the cookie,
  and the only notification is \<open>Prediction Complete\<close>, which is not destructive.
\<close>

theorem simulated_when_unreachable:
  assumes v: "fst (validateForm Demo (formData s))"
    and f: "fetch e (apiUrl Demo s) (request_body Demo s) = NetworkError \<or>
            fetch e (apiUrl Demo s) (request_body Demo s) = Response False status statusText body"
    and r: "0 \<le> math_random e" "math_random e < 1"
  shows "history (handleSubmit Demo e s) =
           \<lparr>record_id = nat_digits (date_now e), material = selectedMaterial s,
            params = formData s, prediction = simulate e,
            timestamp = toISOString e (date_now e), remarks = None\<rparr> # history s \<and>
         simulate e \<in> {JString ''excellent'', JString ''qualified'', JString ''no yield''} \<and>
         (simulate e = JString ''excellent'') = (math_random e < 1 / 3) \<and>
         (simulate e = JString ''qualified'') = (1 / 3 \<le> math_random e \<and> math_random e < 2 / 3) \<and>
         (simulate e = JString ''no yield'') = (2 / 3 \<le> math_random e) \<and>
         cookie_writes (handleSubmit Demo e s) =
           cookie_writes s @
             [cookie_text e ''cvd_history'' (history_text Demo (history (handleSubmit Demo e s))) 30] \<and>
         document_cookie (handleSubmit Demo e s) =
           document_cookie_set
             (cookie_text e ''cvd_history'' (history_text Demo (history (handleSubmit Demo e s))) 30)
             (document_cookie s) \<and>
         toasts (handleSubmit Demo e s) =
           toasts s @ [\<lparr>title = ''Prediction Complete'',
                        description = ''Result: '' @ ToString (simulate e),
                        variant = Default\<rparr>]"
proof -
  from handleSubmit_simulated [OF v f] obtain s' where
    h: "handleSubmit Demo e s = (add_to_history Demo e (simulate e) s')\<lparr>isLoading := False\<rparr>"
    and same: "history s' = history s" "toasts s' = toasts s" "cookie_writes s' = cookie_writes s"
      "document_cookie s' = document_cookie s" "selectedMaterial s' = selectedMaterial s"
      "formData s' = formData s"
    by blast
  have a: "simulate e \<in> {JString ''excellent'', JString ''qualified'', JString ''no yield''}"
    by (simp add: simulate_thirds [OF r])
  have b: "(simulate e = JString ''excellent'') = (math_random e < 1 / 3)"
    by (simp add: simulate_thirds [OF r])
  have c: "(simulate e = JString ''qualified'') = (1 / 3 \<le> math_random e \<and> math_random e < 2 / 3)"
    by (auto simp add: simulate_thirds [OF r])
  have d: "(simulate e = JString ''no yield'') = (2 / 3 \<le> math_random e)"
    by (auto simp add: simulate_thirds [OF r])
  show ?thesis
    unfolding h using a b c d by (simp add: add_to_history_fields same)
qed

theorem simulated_when_unreachable_witness:
  "fst (validateForm Demo (formData sample_session)) \<and>
   fetch offline_env (apiUrl Demo sample_session) (request_body Demo sample_session) = NetworkError \<and>
   0 \<le> math_random offline_env \<and> math_random offline_env < 1 \<and>
   simulate offline_env = JString ''qualified'' \<and>
   history (handleSubmit Demo offline_env sample_session) =
     [\<lparr>record_id = ''1700000000000'', material = ''mos2'', params = sample_params,
       prediction = JString ''qualified'', timestamp = ''2023-11-14T22:13:20.000Z'',
       remarks = None\<rparr>] \<and>
   toasts (handleSubmit Demo offline_env sample_session) =
     [\<lparr>title = ''Prediction Complete'', description = ''Result: qualified'', variant = Default\<rparr>]"
proof -
  have v: "fst (validateForm Demo (formData sample_session))"
    by (simp add: sample_session_def sample_valid)
  have f: "fetch offline_env (apiUrl Demo sample_session) (request_body Demo sample_session) = NetworkError \<or>
           fetch offline_env (apiUrl Demo sample_session) (request_body Demo sample_session) = Response False 0 [] []"
    by (simp add: offline_env_def)
  have r: "0 \<le> math_random offline_env" "math_random offline_env < 1"
    by (simp_all add: offline_env_def online_env_def)
  note t = simulated_when_unreachable [OF v f r]
  have q: "simulate offline_env = JString ''qualified''"
    using t by (simp add: offline_env_def online_env_def)
  show ?thesis
    using v f r t unfolding q
    by (simp add: offline_env_def online_env_def sample_session_def initial_def)
qed

text \<open>
  The claim as it was stated speaks of every submission. In the first component a valid
  submission whose request is rejected, or answered with the status 500, creates no
  record, assigns nothing to the cookie and shows a destructive notification.
\<close>

theorem unreachable_reported_counterexample:
  "fst (validateForm Api (formData sample_session)) \<and>
   fetch offline_env (apiUrl Api sample_session) (request_body Api sample_session) = NetworkError \<and>
   history (handleSubmit Api offline_env sample_session) = history sample_session \<and>
   cookie_writes (handleSubmit Api offline_env sample_session) = [] \<and>
   toasts (handleSubmit Api offline_env sample_session) =
     [\<lparr>title = ''Network Error'',
       description = ''Failed to connect to the prediction server. Please check if the server is running.'',
       variant = Destructive\<rparr>] \<and>
   fetch failing_env (apiUrl Api sample_session) (request_body Api sample_session) =
     Response False 500 ''Internal Server Error'' [] \<and>
   history (handleSubmit Api failing_env sample_session) = history sample_session \<and>
   cookie_writes (handleSubmit Api failing_env sample_session) = [] \<and>
   toasts (handleSubmit Api failing_env sample_session) =
     [\<lparr>title = ''API Error'',
       description = ''Server returned 500: Internal Server Error'',
       variant = Destructive\<rparr>]"
proof -
  have v: "fst (validateForm Api (formData sample_session))"
    by (simp add: sample_session_def sample_valid)
  have five: "nat_digits 500 = ''500''"
    by (simp add: nat_digits.simps digit_char_def)
  show ?thesis
    using v
    by (simp add: handleSubmit_valid request_def offline_env_def failing_env_def five)
      (simp add: sample_session_def initial_def)
qed

subsection \<open>Deleting a record\<close>

lemma filter_absent: "i \<notin> record_id ` set h \<Longrightarrow> filter (\<lambda>r. record_id r \<noteq> i) h = h"
  by (induction h) auto

lemma filter_one_removed:
  "distinct (map record_id h) \<Longrightarrow> i \<in> record_id ` set h \<Longrightarrow>
   Suc (length (filter (\<lambda>r. record_id r \<noteq> i) h)) = length h"
proof (induction h)
  case Nil
  then show ?case by simp
next
  case (Cons r h)
  show ?case
  proof (cases "record_id r = i")
    case True
    with Cons.prems have "i \<notin> record_id ` set h" by auto
    then have "filter (\<lambda>r. record_id r \<noteq> i) h = h" by (rule filter_absent)
    with True show ?thesis by simp
  next
    case False
    with Cons show ?thesis by auto
  qed
qed

text \<open>
  Claim C7. \<open>handleDeleteRecord\<close> keeps the records whose identifier is not the one
  given, each as it was and in the order they had, and no other record: the new history
  is a subsequence of the old one. When no record has the identifier the history is the
  same; when the identifiers are distinct and one record has it, the history is one
  record shorter. The new history is what is written to the cookie.
\<close>

theorem delete_removes_that_record:
  "history (handleDeleteRecord e i s) = filter (\<lambda>r. record_id r \<noteq> i) (history s) \<and>
   set (history (handleDeleteRecord e i s)) = {r \<in> set (history s). record_id r \<noteq> i} \<and>
   subseq (history (handleDeleteRecord e i s)) (history s) \<and>
   (i \<notin> record_id ` set (history s) \<longrightarrow> history (handleDeleteRecord e i s) = history s) \<and>
   (distinct (map record_id (history s)) \<and> i \<in> record_id ` set (history s) \<longrightarrow>
      Suc (length (history (handleDeleteRecord e i s))) = length (history s)) \<and>
   cookie_writes (handleDeleteRecord e i s) =
     cookie_writes s @
       [cookie_text e ''cvd_history'' (history_text Api (history (handleDeleteRecord e i s))) 30] \<and>
   document_cookie (handleDeleteRecord e i s) =
     document_cookie_set
       (cookie_text e ''cvd_history'' (history_text Api (history (handleDeleteRecord e i s))) 30)
       (document_cookie s)"
  by (simp add: handleDeleteRecord_fields filter_absent filter_one_removed)

theorem delete_removes_that_record_witness:
  "distinct (map record_id (history two_records)) \<and>
   ''1'' \<in> record_id ` set (history two_records) \<and>
   ''7'' \<notin> record_id ` set (history two_records) \<and>
   history (handleDeleteRecord offline_env ''1'' two_records) = [numbered_record 2] \<and>
   Suc (length (history (handleDeleteRecord offline_env ''1'' two_records))) =
     length (history two_records) \<and>
   history (handleDeleteRecord offline_env ''7'' two_records) = history two_records"
  using delete_removes_that_record [of offline_env "''1''" two_records]
    delete_removes_that_record [of offline_env "''7''" two_records]
  by (simp add: two_records_def numbered_record_def)

text \<open>
  Claim C10. When no record of the history has the identifier, \<open>handleDeleteRecord\<close>
  leaves the history as it is, and still assigns the whole serialised history to the
  cookie and shows the notification that the record has been removed.
\<close>

theorem delete_absent_still_writes:
  assumes "i \<notin> record_id ` set (history s)"
  shows "history (handleDeleteRecord e i s) = history s \<and>
         cookie_writes (handleDeleteRecord e i s) =
           cookie_writes s @ [cookie_text e ''cvd_history'' (history_text Api (history s)) 30] \<and>
         document_cookie (handleDeleteRecord e i s) =
           document_cookie_set (cookie_text e ''cvd_history'' (history_text Api (history s)) 30)
             (document_cookie s) \<and>
         toasts (handleDeleteRecord e i s) =
           toasts s @ [\<lparr>title = ''Record Deleted'',
                        description = ''Prediction record has been removed from history.'',
                        variant = Default\<rparr>] \<and>
         console (handleDeleteRecord e i s) = console s"
  using assms by (simp add: handleDeleteRecord_fields filter_absent)

theorem delete_absent_still_writes_witness:
  "''7'' \<notin> record_id ` set (history two_records) \<and>
   history (handleDeleteRecord offline_env ''7'' two_records) = history two_records \<and>
   cookie_writes (handleDeleteRecord offline_env ''7'' two_records) =
     [cookie_text offline_env ''cvd_history'' (history_text Api (history two_records)) 30] \<and>
   toasts (handleDeleteRecord offline_env ''7'' two_records) =
     [\<lparr>title = ''Record Deleted'',
       description = ''Prediction record has been removed from history.'',
       variant = Default\<rparr>]"
proof -
  have absent: "''7'' \<notin> record_id ` set (history two_records)"
    by (simp add: two_records_def numbered_record_def)
  show ?thesis
    using absent delete_absent_still_writes [OF absent, of offline_env]
    by (simp add: two_records_def sample_session_def initial_def)
qed

subsection \<open>Pages\<close>

lemma totalPages_div: "totalPages s = int ((length (filteredHistory s) + 9) div 10)"
proof -
  have "\<lceil>real n / 10\<rceil> = int ((n + 9) div 10)" for n :: nat
  proof -
    have "\<lceil>real n / 10\<rceil> = \<lceil>real_of_int (int n) / real_of_int 10\<rceil>" by simp
    also have "\<dots> = - ((- int n) div 10)" unfolding ceiling_divide_eq_div by simp
    also have "\<dots> = int ((n + 9) div 10)" by linarith
    finally show ?thesis .
  qed
  then show ?thesis by (simp add: totalPages_def recordsPerPage_def)
qed

lemma Array_slice_nat: "Array_slice xs (int a) (int a + int m) = take m (drop a xs)"
proof (cases "a \<le> length xs")
  case True
  show ?thesis
  proof (cases "a + m \<le> length xs")
    case True
    with \<open>a \<le> length xs\<close> show ?thesis
      by (simp add: Array_slice_def Let_def min_def)
  next
    case False
    then have "length (drop a xs) \<le> m" by simp
    with False \<open>a \<le> length xs\<close> show ?thesis
      by (simp add: Array_slice_def Let_def min_def)
  qed
next
  case False
  then show ?thesis
    by (simp add: Array_slice_def Let_def min_def)
qed

lemma currentRecords_take_drop:
  assumes "1 \<le> currentPage s"
  shows "currentRecords s = take 10 (drop (10 * nat (currentPage s - 1)) (filteredHistory s))"
proof -
  have st: "startIndex s = int (10 * nat (currentPage s - 1))"
    using assms by (simp add: startIndex_def recordsPerPage_def)
  have "currentRecords s =
        Array_slice (filteredHistory s) (int (10 * nat (currentPage s - 1)))
          (int (10 * nat (currentPage s - 1)) + int 10)"
    unfolding currentRecords_def endIndex_def st recordsPerPage_def by simp
  then show ?thesis unfolding Array_slice_nat .
qed

lemma page_in_range_filter_effect: "page_in_range (filter_effect s)"
  by (simp add: page_in_range_def filter_effect_def Let_def)

lemma page_in_range_cong:
  "filteredHistory s' = filteredHistory s \<Longrightarrow> currentPage s' = currentPage s \<Longrightarrow>
   page_in_range s \<Longrightarrow> page_in_range s'"
  by (simp add: page_in_range_def totalPages_def)

lemma page_in_range_previous: "page_in_range s \<Longrightarrow> page_in_range (previous_page s)"
  by (auto simp add: page_in_range_def previous_page_def totalPages_def)

lemma page_in_range_next: "page_in_range s \<Longrightarrow> page_in_range (next_page s)"
  by (auto simp add: page_in_range_def next_page_def totalPages_def)

lemma page_in_range_step: "page_in_range s \<Longrightarrow> page_in_range (step c ev s)"
proof (cases ev)
  case (Submit e)
  assume "page_in_range s"
  then show ?thesis using Submit handleSubmit_view [of c e s]
    by (auto simp add: page_in_range_filter_effect intro: page_in_range_cong)
next
  case (SelectMaterial m)
  assume "page_in_range s"
  then show ?thesis using SelectMaterial
    by (cases c) (auto intro: page_in_range_cong)
next
  case (ChangeForm p)
  assume "page_in_range s"
  then show ?thesis using ChangeForm by (auto intro: page_in_range_cong)
qed (auto simp add: page_in_range_filter_effect page_in_range_previous page_in_range_next
       split: component.splits)

lemma page_in_range_run: "page_in_range s \<Longrightarrow> page_in_range (run c evs s)"
  by (induction evs arbitrary: s) (simp_all add: page_in_range_step)

lemma page_in_range_mount: "mount c jar = Inr s \<Longrightarrow> page_in_range s"
  by (auto simp add: mount_def page_in_range_filter_effect split: sum.splits)

lemma page_in_range_content:
  "page_in_range s \<Longrightarrow> filteredHistory s \<noteq> [] \<Longrightarrow> currentPage s \<le> totalPages s"
proof -
  assume r: "page_in_range s" and ne: "filteredHistory s \<noteq> []"
  from ne have "0 < length (filteredHistory s)" by simp
  then have "1 \<le> totalPages s" unfolding totalPages_div by linarith
  with r show ?thesis by (simp add: page_in_range_def)
qed

text \<open>
  Claim C8. The number of pages is the filtered count divided by ten and rounded up.
  Page \<open>p\<close>, counted from one, shows the ten filtered records after the first
  \<open>10 * (p - 1)\<close>, or as many as are left. With 25 filtered records there are three
  pages, page 1 shows the first ten and page 3 the last five. The page index is in range
  (at least one, and at most the number of pages or one) after the filter effect, hence
  when the component is mounted, and stays in range through every sequence of events,
  the two page buttons among them; where there is a filtered record, in range means
  from one to the number of pages.
\<close>

theorem pagination:
  "totalPages s = int ((length (filteredHistory s) + 9) div 10) \<and>
   (1 \<le> currentPage s \<longrightarrow>
      currentRecords s = take 10 (drop (10 * nat (currentPage s - 1)) (filteredHistory s))) \<and>
   (length (filteredHistory s) = 25 \<longrightarrow>
      totalPages s = 3 \<and>
      (currentPage s = 1 \<longrightarrow> currentRecords s = take 10 (filteredHistory s)) \<and>
      (currentPage s = 3 \<longrightarrow> currentRecords s = drop 20 (filteredHistory s) \<and>
                               length (currentRecords s) = 5)) \<and>
   page_in_range (filter_effect s) \<and>
   (page_in_range s \<longrightarrow>
      page_in_range (previous_page s) \<and> page_in_range (next_page s) \<and>
      page_in_range (run c evs s)) \<and>
   (page_in_range s \<and> filteredHistory s \<noteq> [] \<longrightarrow>
      1 \<le> currentPage s \<and> currentPage s \<le> totalPages s)"
proof -
  have a: "totalPages s = int ((length (filteredHistory s) + 9) div 10)"
    by (rule totalPages_div)
  have b: "1 \<le> currentPage s \<longrightarrow>
      currentRecords s = take 10 (drop (10 * nat (currentPage s - 1)) (filteredHistory s))"
    by (simp add: currentRecords_take_drop)
  have c: "length (filteredHistory s) = 25 \<longrightarrow>
      totalPages s = 3 \<and>
      (currentPage s = 1 \<longrightarrow> currentRecords s = take 10 (filteredHistory s)) \<and>
      (currentPage s = 3 \<longrightarrow> currentRecords s = drop 20 (filteredHistory s) \<and>
                               length (currentRecords s) = 5)"
    by (simp add: currentRecords_take_drop totalPages_div)
  have d: "page_in_range (filter_effect s)"
    by (rule page_in_range_filter_effect)
  have e: "page_in_range s \<longrightarrow>
      page_in_range (previous_page s) \<and> page_in_range (next_page s) \<and>
      page_in_range (run c evs s)"
    by (simp add: page_in_range_previous page_in_range_next page_in_range_run)
  have f: "page_in_range s \<and> filteredHistory s \<noteq> [] \<longrightarrow>
      1 \<le> currentPage s \<and> currentPage s \<le> totalPages s"
    using page_in_range_content [of s] by (auto simp add: page_in_range_def)
  from a b c d e f show ?thesis by blast
qed

theorem pagination_witness:
  "length (filteredHistory (on_page 3)) = 25 \<and>
   currentPage (on_page 3) = 3 \<and> page_in_range (on_page 3) \<and>
   filteredHistory (on_page 3) \<noteq> [] \<and>
   totalPages (on_page 3) = 3 \<and>
   currentRecords (on_page 3) = map numbered_record [21..<26] \<and>
   currentRecords (on_page 1) = map numbered_record [1..<11] \<and>
   currentPage (next_page (on_page 3)) = 3 \<and>
   currentPage (previous_page (on_page 1)) = 1 \<and>
   page_in_range (run Api [NextPage, NextPage, PreviousPage] (on_page 3))"
proof -
  have len: "length (filteredHistory (on_page p)) = 25" for p
    by (simp add: on_page_def sample_history_def)
  have pages: "totalPages (on_page p) = 3" for p
    by (simp add: totalPages_div len)
  have r3: "page_in_range (on_page 3)"
    by (simp add: page_in_range_def pages) (simp add: on_page_def)
  have "page_in_range (run Api [NextPage, NextPage, PreviousPage] (on_page 3))"
    using pagination [of "on_page 3" Api "[NextPage, NextPage, PreviousPage]"] r3 by blast
  moreover have "currentRecords (on_page 3) = map numbered_record [21..<26]"
    using pagination [of "on_page 3"] len [of 3]
    by (simp add: on_page_def sample_history_def drop_map)
  moreover have "currentRecords (on_page 1) = map numbered_record [1..<11]"
    using pagination [of "on_page 1"] len [of 1]
    by (simp add: on_page_def sample_history_def take_map)
  moreover have "currentPage (next_page (on_page 3)) = 3"
    by (simp add: next_page_def pages) (simp add: on_page_def)
  moreover have "currentPage (previous_page (on_page 1)) = 1"
    by (simp add: previous_page_def pages) (simp add: on_page_def)
  ultimately show ?thesis
    using len [of 3] pages [of 3] r3 by (simp add: on_page_def sample_history_def)
qed

subsection \<open>Identifiers\<close>

lemma clocks_tail:
  "set (clocks evs) \<subseteq> set (clocks (ev # evs)) \<and>
   (sorted_wrt (<) (clocks (ev # evs)) \<longrightarrow> sorted_wrt (<) (clocks evs))"
  by (cases ev) auto

lemma id_number_remarks [simp]: "id_number (r\<lparr>remarks := t\<rparr>) = id_number r"
  by (simp add: id_number_def)

lemma time_derived_remarks [simp]: "time_derived (r\<lparr>remarks := t\<rparr>) = time_derived r"
  by (simp add: time_derived_def)

lemma step_time_ordered:
  assumes td: "list_all time_derived (history s)"
    and so: "sorted_wrt (>) (map id_number (history s))"
    and cl: "sorted_wrt (<) (clocks (ev # evs))"
    and bd: "\<forall>n\<in>set (clocks (ev # evs)). \<forall>r\<in>set (history s). id_number r < n"
  shows "list_all time_derived (history (step c ev s)) \<and>
         sorted_wrt (>) (map id_number (history (step c ev s))) \<and>
         sorted_wrt (<) (clocks evs) \<and>
         (\<forall>n\<in>set (clocks evs). \<forall>r\<in>set (history (step c ev s)). id_number r < n)"
proof -
  have tail: "sorted_wrt (<) (clocks evs)" using cl clocks_tail [of evs ev] by blast
  have bd': "\<forall>n\<in>set (clocks evs). \<forall>r\<in>set (history s). id_number r < n"
    using bd clocks_tail [of evs ev] by blast
  from step_history [of ev c s] consider
    (added) e p where "ev = Submit e"
      "history (step c ev s) =
        \<lparr>record_id = nat_digits (date_now e), material = selectedMaterial s, params = formData s,
         prediction = p, timestamp = toISOString e (date_now e), remarks = None\<rparr> # history s"
  | (edited) i t where "history (step c ev s) =
        map (\<lambda>r. if record_id r = i then r\<lparr>remarks := Some t\<rparr> else r) (history s)"
  | (deleted) i where "history (step c ev s) = filter (\<lambda>r. record_id r \<noteq> i) (history s)"
  | (same) "history (step c ev s) = history s"
    by blast
  then show ?thesis
  proof cases
    case added
    let ?new = "\<lparr>record_id = nat_digits (date_now e), material = selectedMaterial s,
         params = formData s, prediction = p, timestamp = toISOString e (date_now e),
         remarks = None\<rparr>"
    have num: "id_number ?new = date_now e"
      by (simp add: id_number_def digits_val_nat_digits)
    have new_td: "time_derived ?new"
      by (simp add: time_derived_def id_number_def digits_val_nat_digits)
    have below: "\<forall>r\<in>set (history s). id_number r < date_now e"
      using bd added(1) by simp
    have above: "\<forall>n\<in>set (clocks evs). date_now e < n"
      using cl added(1) by simp
    show ?thesis
      unfolding added(2) using td so tail bd' new_td below above
      by (simp add: num)
  next
    case edited
    have ids: "map id_number (map (\<lambda>r. if record_id r = i then r\<lparr>remarks := Some t\<rparr> else r) (history s)) =
               map id_number (history s)"
      by (induction "history s") auto
    have "\<forall>r\<in>set (map (\<lambda>r. if record_id r = i then r\<lparr>remarks := Some t\<rparr> else r) (history s)).
            \<exists>r'\<in>set (history s). id_number r = id_number r' \<and> time_derived r = time_derived r'"
      by auto
    then show ?thesis
      unfolding edited ids using td so tail bd'
      by (auto simp add: list_all_iff)
  next
    case deleted
    have "sorted_wrt (\<lambda>a b. id_number a > id_number b) (filter (\<lambda>r. record_id r \<noteq> i) (history s))"
      using so by (simp add: sorted_wrt_map sorted_wrt_filter)
    then show ?thesis
      unfolding deleted using td tail bd'
      by (auto simp add: sorted_wrt_map list_all_iff)
  next
    case same
    then show ?thesis using td so tail bd' by simp
  qed
qed

lemma run_time_ordered:
  assumes "list_all time_derived (history s)"
    and "sorted_wrt (>) (map id_number (history s))"
    and "sorted_wrt (<) (clocks evs)"
    and "\<forall>n\<in>set (clocks evs). \<forall>r\<in>set (history s). id_number r < n"
  shows "list_all time_derived (history (run c evs s)) \<and>
         sorted_wrt (>) (map id_number (history (run c evs s)))"
  using assms
proof (induction evs arbitrary: s)
  case Nil
  then show ?case by simp
next
  case (Cons ev evs)
  from step_time_ordered [OF Cons.prems, of c]
  have "list_all time_derived (history (step c ev s))"
    and "sorted_wrt (>) (map id_number (history (step c ev s)))"
    and "sorted_wrt (<) (clocks evs)"
    and "\<forall>n\<in>set (clocks evs). \<forall>r\<in>set (history (step c ev s)). id_number r < n"
    by blast+
  then show ?case using Cons.IH [of "step c ev s"] by simp
qed

lemma decreasing_distinct:
  "sorted_wrt (>) (map id_number h) \<Longrightarrow> distinct (map record_id h)"
proof (induction h)
  case Nil
  then show ?case by simp
next
  case (Cons r h)
  then have "\<forall>x\<in>set h. id_number x < id_number r" by simp
  then have "record_id r \<notin> record_id ` set h" by (auto simp add: id_number_def)
  with Cons show ?case by simp
qed

text \<open>
  Claim C9, as amended. Take a history whose identifiers are the decimal texts of
  numbers that decrease from the newest record to the oldest, and a sequence of events
  in which the clock readings of the submissions increase strictly and are all greater
  than those numbers. Then in the state after the events the identifiers are distinct,
  each is the decimal text of a number, and the numbers decrease from the newest record
  to the oldest: identifiers rise in the order of creation.
\<close>

theorem identifiers_distinct_while_clock_rises:
  assumes "list_all time_derived (history s)"
    and "sorted_wrt (>) (map id_number (history s))"
    and "sorted_wrt (<) (clocks evs)"
    and "\<forall>n\<in>set (clocks evs). \<forall>r\<in>set (history s). id_number r < n"
  shows "distinct (map record_id (history (run c evs s))) \<and>
         list_all time_derived (history (run c evs s)) \<and>
         sorted_wrt (>) (map id_number (history (run c evs s)))"
  using run_time_ordered [OF assms, of c] decreasing_distinct by blast

theorem identifiers_distinct_while_clock_rises_witness:
  "list_all time_derived (history two_records) \<and>
   sorted_wrt (>) (map id_number (history two_records)) \<and>
   sorted_wrt (<) (clocks [Submit (online_env\<lparr>date_now := 5\<rparr>), EditRemarks online_env ''2'' ''fine'',
                            Submit (online_env\<lparr>date_now := 6\<rparr>), DeleteRecord online_env ''1'']) \<and>
   map id_number (history two_records) = [2, 1] \<and>
   clocks [Submit (online_env\<lparr>date_now := 5\<rparr>), EditRemarks online_env ''2'' ''fine'',
           Submit (online_env\<lparr>date_now := 6\<rparr>), DeleteRecord online_env ''1''] = [5, 6] \<and>
   distinct (map record_id (history (run Api
      [Submit (online_env\<lparr>date_now := 5\<rparr>), EditRemarks online_env ''2'' ''fine'',
       Submit (online_env\<lparr>date_now := 6\<rparr>), DeleteRecord online_env ''1''] two_records))) \<and>
   sorted_wrt (>) (map id_number (history (run Api
      [Submit (online_env\<lparr>date_now := 5\<rparr>), EditRemarks online_env ''2'' ''fine'',
       Submit (online_env\<lparr>date_now := 6\<rparr>), DeleteRecord online_env ''1''] two_records)))"
proof -
  let ?evs = "[Submit (online_env\<lparr>date_now := 5\<rparr>), EditRemarks online_env ''2'' ''fine'',
               Submit (online_env\<lparr>date_now := 6\<rparr>), DeleteRecord online_env ''1'']"
  have ids: "map id_number (history two_records) = [2, 1]"
    by (simp add: two_records_def numbered_record_def id_number_def digit_val_def)
  have td: "list_all time_derived (history two_records)"
    by (simp add: two_records_def numbered_record_def time_derived_def id_number_def digit_val_def
        nat_digits.simps digit_char_def)
  have so: "sorted_wrt (>) (map id_number (history two_records))"
    unfolding ids by simp
  have cl: "clocks ?evs = [5, 6]" by simp
  have sc: "sorted_wrt (<) (clocks ?evs)" by simp
  have bd: "\<forall>n\<in>set (clocks ?evs). \<forall>r\<in>set (history two_records). id_number r < n"
    using ids by (simp add: two_records_def)
  from identifiers_distinct_while_clock_rises [OF td so sc bd, of Api]
  show ?thesis using td so sc ids cl by blast
qed

text \<open>
  The claim as it was stated has no condition on the clock. Two submissions that read
  the same clock value give two records with the same identifier.
\<close>

theorem same_clock_counterexample:
  "map record_id (history (run Api [Submit online_env, Submit online_env] sample_session)) =
     [''1700000000000'', ''1700000000000''] \<and>
   \<not> distinct (map record_id (history (run Api [Submit online_env, Submit online_env] sample_session)))"
proof -
  have e: "online_env = online_env\<lparr>date_now := 1700000000000\<rparr>"
    by (simp add: online_env_def)
  have v: "fst (validateForm Api (formData sample_session))"
    by (simp add: sample_session_def sample_valid)
  note first = online_labelled [OF v, of 1700000000000, folded e]
  have v2: "fst (validateForm Api (formData (step Api (Submit online_env) sample_session)))"
    using first v by simp
  note second = online_labelled [OF v2, of 1700000000000, folded e]
  have "map record_id (history (run Api [Submit online_env, Submit online_env] sample_session)) =
     [''1700000000000'', ''1700000000000'']"
    using first second by (simp add: sample_session_def initial_def)
  then show ?thesis by simp
qed

subsection \<open>The history in the cookie\<close>

lemma cut_text_unparsable:
  \<open>JSON_parse ''[{"id":"1700000000000","material":"mos2","params":{"substrateType":"sapphire","metalChalcogenRatio":0.5,"hArRatio":2,"pressureType":"low","metalTemperature":800,"chalcogenTemperature":200,"substratePosition":"top","reactionTime":15,"saltAddition":"yes"},"prediction":"excellent","timestamp":"2023-11-14T22:13:20.000Z","remarks":"a'' = Inl SyntaxError\<close>
  by code_simp

lemma remarked_text:
  \<open>history_text Api
     [\<lparr>record_id = ''1700000000000'', material = ''mos2'', params = sample_params,
       prediction = JString ''excellent'', timestamp = ''2023-11-14T22:13:20.000Z'',
       remarks = Some ''a;b''\<rparr>] =
   ''[{"id":"1700000000000","material":"mos2","params":{"substrateType":"sapphire","metalChalcogenRatio":0.5,"hArRatio":2,"pressureType":"low","metalTemperature":800,"chalcogenTemperature":200,"substratePosition":"top","reactionTime":15,"saltAddition":"yes"},"prediction":"excellent","timestamp":"2023-11-14T22:13:20.000Z","remarks":"a;b"}]''\<close>
  by code_simp

lemma fine_text:
  \<open>history_text Api
     [\<lparr>record_id = ''1700000000000'', material = ''mos2'', params = sample_params,
       prediction = JString ''excellent'', timestamp = ''2023-11-14T22:13:20.000Z'',
       remarks = Some ''fine''\<rparr>] =
   ''[{"id":"1700000000000","material":"mos2","params":{"substrateType":"sapphire","metalChalcogenRatio":0.5,"hArRatio":2,"pressureType":"low","metalTemperature":800,"chalcogenTemperature":200,"substratePosition":"top","reactionTime":15,"saltAddition":"yes"},"prediction":"excellent","timestamp":"2023-11-14T22:13:20.000Z","remarks":"fine"}]''\<close>
  by code_simp

lemma full_text_parsed:
  \<open>(case JSON_parse ''[{"id":"1700000000000","material":"mos2","params":{"substrateType":"sapphire","metalChalcogenRatio":0.5,"hArRatio":2,"pressureType":"low","metalTemperature":800,"chalcogenTemperature":200,"substratePosition":"top","reactionTime":15,"saltAddition":"yes"},"prediction":"excellent","timestamp":"2023-11-14T22:13:20.000Z","remarks":"fine"}]'' of Inl e \<Rightarrow> None | Inr v \<Rightarrow> history_of Api v) =
   Some [\<lparr>record_id = ''1700000000000'', material = ''mos2'', params = sample_params,
       prediction = JString ''excellent'', timestamp = ''2023-11-14T22:13:20.000Z'',
       remarks = Some ''fine''\<rparr>]\<close>
  by code_simp

lemma remark_events_run:
  "history (run Api (remark_events t) sample_session) =
     [\<lparr>record_id = ''1700000000000'', material = ''mos2'', params = sample_params,
       prediction = JString ''excellent'', timestamp = ''2023-11-14T22:13:20.000Z'',
       remarks = Some t\<rparr>] \<and>
   document_cookie (run Api (remark_events t) sample_session) =
     document_cookie_set
       (cookie_text online_env ''cvd_history''
          (history_text Api
             [\<lparr>record_id = ''1700000000000'', material = ''mos2'', params = sample_params,
               prediction = JString ''excellent'', timestamp = ''2023-11-14T22:13:20.000Z'',
               remarks = Some t\<rparr>]) 30)
       [(''cvd_history'',
         history_text Api
           [\<lparr>record_id = ''1700000000000'', material = ''mos2'', params = sample_params,
             prediction = JString ''excellent'', timestamp = ''2023-11-14T22:13:20.000Z'',
             remarks = None\<rparr>])]"
proof -
  let ?r = "\<lparr>record_id = ''1700000000000'', material = ''mos2'', params = sample_params,
       prediction = JString ''excellent'', timestamp = ''2023-11-14T22:13:20.000Z'',
       remarks = None\<rparr>"
  have v: "fst (validateForm Api (formData sample_session))"
    by (simp add: sample_session_def sample_valid)
  have f: \<open>fetch online_env (apiUrl Api sample_session) (request_body Api sample_session) =
     Response True 200 ''OK'' ''{"prediction":"excellent"}''\<close>
    by (simp add: online_env_def)
  have l: "js_get (JObject [(''prediction'', JString ''excellent'')]) ''prediction'' = Inr (JString ''excellent'')"
    by (simp add: property_def)
  have newrec: "\<lparr>record_id = nat_digits (date_now online_env), material = selectedMaterial sample_session,
       params = formData sample_session, prediction = JString ''excellent'',
       timestamp = toISOString online_env (date_now online_env), remarks = None\<rparr> = ?r"
    by (simp add: online_env_def sample_session_def initial_def)
  have empty: "history sample_session = []" "document_cookie sample_session = []"
    by (simp_all add: sample_session_def initial_def)
  note first = step_Submit_labelled [OF v f sample_body l, unfolded newrec empty]
  have h1: "history (step Api (Submit online_env) sample_session) = [?r]"
    using first by blast
  have semi: "CHR '';'' \<notin> set (history_text Api [?r])"
    unfolding sample_text by simp
  have tr: "trim (history_text Api [?r]) = history_text Api [?r]"
    unfolding history_text_shape by (rule trim_bracketed)
  have "document_cookie (step Api (Submit online_env) sample_session) =
        document_cookie_set (cookie_text online_env ''cvd_history'' (history_text Api [?r]) 30) []"
    using first by blast
  then have c1: "document_cookie (step Api (Submit online_env) sample_session) =
        [(''cvd_history'', history_text Api [?r])]"
    by (simp add: cookie_stored [OF semi] tr)
  have "run Api (remark_events t) sample_session =
        filter_effect (handleRemarksEdit Api online_env ''1700000000000'' t
          (step Api (Submit online_env) sample_session))"
    by (simp only: remark_events_def run.simps step.simps)
  then show ?thesis
    by (simp add: handleRemarksEdit_def Let_def h1 c1 filter_effect_def del: step.simps)
qed

text \<open>
  Claim C3 says that the history read back from the cookie has the identifiers, the
  immutable fields and the latest remarks of the history that was written. The theorem
  runs two sessions: a submission followed by the remark \<open>fine\<close>, and the same with the
  remark \<open>a;b\<close>. In the first, the component mounted on the cookies has the history
  that the session had. In the second, the session has one record, with that remark;
  the cookie keeps the serialised history up to the semicolon only; \<open>getCookie\<close>
  returns that text, \<open>JSON.parse\<close> throws, the error is written to the console, and the
  component mounted on the cookies has an empty history.
\<close>

theorem semicolon_remark_lost:
  \<open>map record_id (history (run Api (remark_events ''a;b'') sample_session)) = [''1700000000000''] \<and>
   map remarks (history (run Api (remark_events ''a;b'') sample_session)) = [Some ''a;b''] \<and>
   document_cookie (run Api (remark_events ''a;b'') sample_session) =
     [(''cvd_history'', ''[{"id":"1700000000000","material":"mos2","params":{"substrateType":"sapphire","metalChalcogenRatio":0.5,"hArRatio":2,"pressureType":"low","metalTemperature":800,"chalcogenTemperature":200,"substratePosition":"top","reactionTime":15,"saltAddition":"yes"},"prediction":"excellent","timestamp":"2023-11-14T22:13:20.000Z","remarks":"a'')] \<and>
   (case reloaded Api (run Api (remark_events ''a;b'') sample_session) of
      Inl v \<Rightarrow> False
    | Inr s \<Rightarrow> history s = [] \<and> console s = [''Error parsing history from cookies:'']) \<and>
   (case reloaded Api (run Api (remark_events ''fine'') sample_session) of
      Inl v \<Rightarrow> False
    | Inr s \<Rightarrow> history s = history (run Api (remark_events ''fine'') sample_session) \<and> console s = [])\<close>
proof -
  let ?cut = \<open>''[{"id":"1700000000000","material":"mos2","params":{"substrateType":"sapphire","metalChalcogenRatio":0.5,"hArRatio":2,"pressureType":"low","metalTemperature":800,"chalcogenTemperature":200,"substratePosition":"top","reactionTime":15,"saltAddition":"yes"},"prediction":"excellent","timestamp":"2023-11-14T22:13:20.000Z","remarks":"a''\<close>
  let ?fine = \<open>''[{"id":"1700000000000","material":"mos2","params":{"substrateType":"sapphire","metalChalcogenRatio":0.5,"hArRatio":2,"pressureType":"low","metalTemperature":800,"chalcogenTemperature":200,"substratePosition":"top","reactionTime":15,"saltAddition":"yes"},"prediction":"excellent","timestamp":"2023-11-14T22:13:20.000Z","remarks":"fine"}]''\<close>
  note lost = remark_events_run [of "''a;b''"]
  note kept = remark_events_run [of "''fine''"]
  have split: \<open>history_text Api
     [\<lparr>record_id = ''1700000000000'', material = ''mos2'', params = sample_params,
       prediction = JString ''excellent'', timestamp = ''2023-11-14T22:13:20.000Z'',
       remarks = Some ''a;b''\<rparr>] = ?cut @ CHR '';'' # ''b"}]''\<close>
    unfolding remarked_text by simp
  have no_semi: "CHR '';'' \<notin> set ?cut" by simp
  have trim_cut: "trim ?cut = ?cut" by (simp add: trim_def)
  have jar_lost: "document_cookie (run Api (remark_events ''a;b'') sample_session) =
        [(''cvd_history'', ?cut)]"
    using lost unfolding split cookie_cut [OF no_semi] trim_cut by simp
  have get_lost: "getCookie ''cvd_history'' (initial [(''cvd_history'', ?cut)]) = Some ?cut"
    using getCookie_single [of "initial [(''cvd_history'', ?cut)]" ?cut] no_semi
    by (simp add: initial_def)
  have reload_lost: "reloaded Api (run Api (remark_events ''a;b'') sample_session) =
        Inr (filter_effect ((initial [(''cvd_history'', ?cut)])
               \<lparr>console := [''Error parsing history from cookies:'']\<rparr>))"
    unfolding reloaded_def jar_lost mount_def load_history_def get_lost
    by (simp add: cut_text_unparsable) (simp add: initial_def)
  have no_semi_fine: "CHR '';'' \<notin> set ?fine" by simp
  have trim_fine: "trim ?fine = ?fine" by (simp add: trim_def)
  have jar_kept: "document_cookie (run Api (remark_events ''fine'') sample_session) =
        [(''cvd_history'', ?fine)]"
    using kept unfolding fine_text cookie_stored [OF no_semi_fine] trim_fine by simp
  have get_kept: "getCookie ''cvd_history'' (initial [(''cvd_history'', ?fine)]) = Some ?fine"
    using getCookie_single [of "initial [(''cvd_history'', ?fine)]" ?fine] no_semi_fine
    by (simp add: initial_def)
  obtain v where parsed: "JSON_parse ?fine = Inr v"
    and typed: "history_of Api v =
      Some [\<lparr>record_id = ''1700000000000'', material = ''mos2'', params = sample_params,
        prediction = JString ''excellent'', timestamp = ''2023-11-14T22:13:20.000Z'',
        remarks = Some ''fine''\<rparr>]"
    using full_text_parsed by (cases "JSON_parse ?fine") auto
  have reload_kept: "reloaded Api (run Api (remark_events ''fine'') sample_session) =
        Inr (filter_effect ((initial [(''cvd_history'', ?fine)])
               \<lparr>history := [\<lparr>record_id = ''1700000000000'', material = ''mos2'', params = sample_params,
                    prediction = JString ''excellent'', timestamp = ''2023-11-14T22:13:20.000Z'',
                    remarks = Some ''fine''\<rparr>],
                 filteredHistory := [\<lparr>record_id = ''1700000000000'', material = ''mos2'', params = sample_params,
                    prediction = JString ''excellent'', timestamp = ''2023-11-14T22:13:20.000Z'',
                    remarks = Some ''fine''\<rparr>]\<rparr>))"
    unfolding reloaded_def jar_kept mount_def load_history_def get_kept
    by (simp add: parsed typed)
  show ?thesis
    unfolding reload_lost reload_kept jar_lost
    using lost kept by (simp add: initial_def filter_effect_def Let_def)
qed

subsection \<open>Loading the history\<close>

lemma load_history_absent:
  "getCookie ''cvd_history'' s = None \<Longrightarrow> load_history c s = Inr s"
  by (simp add: load_history_def)

lemma load_history_unparsable:
  "getCookie ''cvd_history'' s = Some t \<Longrightarrow> JSON_parse t = Inl err \<Longrightarrow>
   load_history c s = Inr (s\<lparr>console := console s @ [''Error parsing history from cookies:'']\<rparr>)"
  by (simp add: load_history_def)

lemma load_history_parsed:
  "getCookie ''cvd_history'' s = Some t \<Longrightarrow> JSON_parse t = Inr v \<Longrightarrow>
   load_history c s =
     (case history_of c v of None \<Rightarrow> Inl v | Some h \<Rightarrow> Inr (s\<lparr>history := h, filteredHistory := h\<rparr>))"
  by (simp add: load_history_def split: option.splits)

lemma small_texts:
  "JSON_parse ''null'' = Inr JNull"
  "JSON_parse ''42'' = Inr (JNumber (Finite 42))"
  \<open>JSON_parse ''{"a":1}'' = Inr (JObject [(''a'', JNumber (Finite 1))])\<close>
  "JSON_parse ''[{'' = Inl SyntaxError"
  by code_simp+

text \<open>
  Claim C6 says that loading never ends in a fatal error: no cookie gives an empty
  history, and a cookie whose content is not the expected structure gives an empty
  history and a line on the console. The theorem loads five cookie jars. With no cookie
  the state is unchanged, so the history is empty. With the text \<open>[{\<close>, which is not
  JSON, the error is written to the console and the history stays empty. With the texts
  \<open>null\<close>, \<open>42\<close> and \<open>{"a":1}\<close>, which are JSON and not arrays of records, nothing is
  written to the console and the parsed value is what \<open>history\<close> is set to; for each of
  them the spread \<open>[...history]\<close> of the filter effect throws.
\<close>

theorem wrong_shape_installed:
  \<open>load_history Api (initial []) = Inr (initial []) \<and>
   load_history Api (initial [(''cvd_history'', ''[{'')]) =
     Inr ((initial [(''cvd_history'', ''[{'')])\<lparr>console := [''Error parsing history from cookies:'']\<rparr>) \<and>
   load_history Api (initial [(''cvd_history'', ''null'')]) = Inl JNull \<and>
   spread JNull = Inl TypeError \<and>
   load_history Api (initial [(''cvd_history'', ''42'')]) = Inl (JNumber (Finite 42)) \<and>
   spread (JNumber (Finite 42)) = Inl TypeError \<and>
   load_history Api (initial [(''cvd_history'', ''{"a":1}'')]) = Inl (JObject [(''a'', JNumber (Finite 1))]) \<and>
   spread (JObject [(''a'', JNumber (Finite 1))]) = Inl TypeError \<and>
   mount Api [(''cvd_history'', ''null'')] = Inl JNull\<close>
proof -
  have get: "CHR '';'' \<notin> set t \<Longrightarrow> t \<noteq> [] \<Longrightarrow>
        getCookie ''cvd_history'' (initial [(''cvd_history'', t)]) = Some t" for t
    using getCookie_single [of "initial [(''cvd_history'', t)]" t] by (simp add: initial_def)
  have none: "getCookie ''cvd_history'' (initial []) = None"
    by (simp add: getCookie_def document_cookie_get_def String_split_def initial_def)
  have a: "load_history Api (initial []) = Inr (initial [])"
    using none by (rule load_history_absent)
  have b: "load_history Api (initial [(''cvd_history'', ''[{'')]) =
     Inr ((initial [(''cvd_history'', ''[{'')])\<lparr>console := [''Error parsing history from cookies:'']\<rparr>)"
    using load_history_unparsable [OF get small_texts(4), of Api] by (simp add: initial_def)
  have c: "load_history Api (initial [(''cvd_history'', ''null'')]) = Inl JNull"
    using load_history_parsed [OF get small_texts(1), of Api] by (simp add: history_of_def)
  have d: "load_history Api (initial [(''cvd_history'', ''42'')]) = Inl (JNumber (Finite 42))"
    using load_history_parsed [OF get small_texts(2), of Api] by (simp add: history_of_def)
  have e: \<open>load_history Api (initial [(''cvd_history'', ''{"a":1}'')]) = Inl (JObject [(''a'', JNumber (Finite 1))])\<close>
    using load_history_parsed [OF get small_texts(3), of Api] by (simp add: history_of_def)
  show ?thesis
    by (simp add: a b c d e mount_def)
qed

end
